theory Spec2Isabelle
  imports Complex_Main "HOL-Library.Word"
begin

section \<open>Strings\<close>

text \<open>
  The program is TypeScript; its strings are sequences of code units.  They are embedded as
  Isabelle strings, so the development covers the code units below 256.  The functions below
  are the \<^verbatim>\<open>String.prototype\<close> methods the orchestration code calls, restricted to
  that range.
\<close>

definition isWhiteSpace :: "char \<Rightarrow> bool" where
  \<comment> \<open>WhiteSpace and LineTerminator of the language: TAB, LF, VT, FF, CR, SP, NBSP.\<close>
  "isWhiteSpace c = (of_char c \<in> {9, 10, 11, 12, 13, 32, 160 :: nat})"


definition trim :: "string \<Rightarrow> string" where
  "trim s = rev (dropWhile isWhiteSpace (rev (dropWhile isWhiteSpace s)))"

fun startsWith :: "string \<Rightarrow> string \<Rightarrow> bool" where
  "startsWith s [] = True"
| "startsWith [] (p # ps) = False"
| "startsWith (c # cs) (p # ps) = (c = p \<and> startsWith cs ps)"

definition endsWith :: "string \<Rightarrow> string \<Rightarrow> bool" where
  "endsWith s suffix = startsWith (rev s) (rev suffix)"

fun includesStr :: "string \<Rightarrow> string \<Rightarrow> bool" where
  "includesStr [] sub = (sub = [])"
| "includesStr (c # cs) sub = (startsWith (c # cs) sub \<or> includesStr cs sub)"

definition lowerChar :: "char \<Rightarrow> char" where
  "lowerChar c =
     (let n = (of_char c :: nat)
      in if (65 \<le> n \<and> n \<le> 90) \<or> (192 \<le> n \<and> n \<le> 222 \<and> n \<noteq> 215)
         then char_of (n + 32) else c)"

definition toLowerCase :: "string \<Rightarrow> string" where
  "toLowerCase s = map lowerChar s"

text \<open>
  \<^verbatim>\<open>toUpperCase\<close> can lengthen a string: the sharp s becomes \<^verbatim>\<open>SS\<close>.  The micro sign
  and the y with diaeresis have upper-case forms outside the range covered here and are left
  as they are.
\<close>

definition upperChar :: "char \<Rightarrow> string" where
  "upperChar c =
     (let n = (of_char c :: nat)
      in if (97 \<le> n \<and> n \<le> 122) \<or> (224 \<le> n \<and> n \<le> 254 \<and> n \<noteq> 247)
         then [char_of (n - 32)]
         else if n = 223 then ''SS'' else [c])"

definition toUpperCase :: "string \<Rightarrow> string" where
  "toUpperCase s = concat (map upperChar s)"

section \<open>Calls into the inference runtime\<close>

text \<open>
  Every generation method of \<^verbatim>\<open>WebLLMManager\<close> first awaits \<^verbatim>\<open>initialize()\<close>, then
  checks the engine handle, then issues one completion call.  What the runtime answers is
  outside the program, so one run is described by the three outcomes: \<open>Inl\<close> carries the
  message of a thrown \<^verbatim>\<open>Error\<close>, and a completion without content is \<open>Inr None\<close>.
\<close>

record ai_run =
  init_outcome :: "string option"
  engine_present :: bool
  completion :: "string + string option"

definition ensure_engine :: "ai_run \<Rightarrow> string option" where
  "ensure_engine run =
     (case init_outcome run of
        Some msg \<Rightarrow> Some msg
      | None \<Rightarrow> if \<not> engine_present run then Some ''AI not initialized'' else None)"

definition completion_call :: "ai_run \<Rightarrow> string + string option" where
  "completion_call run =
     (case ensure_engine run of
        Some msg \<Rightarrow> Inl msg
      | None \<Rightarrow> completion run)"

section \<open>Emotion classification\<close>

definition validEmotions :: "string list" where
  "validEmotions =
     [''joyful'', ''nostalgic'', ''melancholic'', ''hopeful'', ''grateful'',
      ''reflective'', ''loving'', ''peaceful'', ''excited'', ''contemplative'',
      ''vulnerable'', ''proud'', ''wistful'', ''serene'', ''passionate'']"

definition validateEmotion :: "string \<Rightarrow> string" where
  "validateEmotion emotion =
     (if emotion \<in> set validEmotions then emotion else ''reflective'')"

definition emotionKeywords :: "(string \<times> string list) list" where
  "emotionKeywords =
     [(''joyful'', [''happy'', ''joy'', ''excited'', ''wonderful'', ''amazing'', ''love'']),
      (''nostalgic'', [''remember'', ''used to'', ''back then'', ''childhood'', ''past'']),
      (''grateful'', [''thankful'', ''blessed'', ''appreciate'', ''grateful'', ''lucky'']),
      (''melancholic'', [''sad'', ''miss'', ''lost'', ''gone'', ''difficult'', ''hard'']),
      (''hopeful'', [''hope'', ''future'', ''dream'', ''wish'', ''believe'', ''will''])]"

definition keywordHit :: "string \<Rightarrow> string \<times> string list \<Rightarrow> bool" where
  "keywordHit lowerText entry = list_ex (includesStr lowerText) (snd entry)"

definition analyzeEmotionFallback :: "string \<Rightarrow> string" where
  "analyzeEmotionFallback text =
     (case find (keywordHit (toLowerCase text)) emotionKeywords of
        Some entry \<Rightarrow> fst entry
      | None \<Rightarrow> ''reflective'')"

definition analyzeEmotionalState :: "ai_run \<Rightarrow> string \<Rightarrow> string" where
  "analyzeEmotionalState run text =
     (case completion_call run of
        Inl err \<Rightarrow> analyzeEmotionFallback text
      | Inr answer \<Rightarrow>
          validateEmotion
            (case answer of
               None \<Rightarrow> ''reflective''
             | Some s \<Rightarrow> (let e = toLowerCase (trim s)
                          in if e = [] then ''reflective'' else e)))"

definition fallbackEmotions :: "string list" where
  "fallbackEmotions =
     [''joyful'', ''nostalgic'', ''grateful'', ''melancholic'', ''hopeful'', ''reflective'']"

section \<open>Interview questions\<close>

record AIResponse =
  content :: string
  confidence :: real
  emotionalTone :: string
  suggestions :: "string list option"

definition OPENING :: "string list" where
  "OPENING =
     [''What's a moment from your life that still makes you smile when you think about it?'',
      ''If you could sit down with someone you love and share one story, what would it be?'',
      ''What's something about yourself that you hope people will always remember?'']"

definition MEMORIES :: "string list" where
  "MEMORIES =
     [''Tell me about a time when you felt most proud of yourself.'',
      ''What's a small, everyday moment that meant more to you than it might have seemed?'',
      ''Who has had the biggest impact on your life, and what did they teach you?'',
      ''What's a tradition or ritual that's been important to your family?'']"

definition WISDOM :: "string list" where
  "WISDOM =
     [''What's one piece of advice you wish someone had given you when you were younger?'',
      ''What have you learned about love that you'd want to pass on?'',
      ''What mistake taught you the most valuable lesson?'',
      ''What do you know now that you wish you could tell your younger self?'']"

definition FEELINGS :: "string list" where
  "FEELINGS =
     [''How do you want to be remembered by the people you love most?'',
      ''What do you hope people will say about the kind of person you were?'',
      ''What's something you've always wanted to tell someone but never found the right moment?'',
      ''What does it mean to you to live a meaningful life?'']"

definition FUTURE :: "string list" where
  "FUTURE =
     [''What dreams do you have for the people you love?'',
      ''What kind of world do you hope future generations will create?'',
      ''What values do you most want to pass down?'',
      ''What would you want someone to know if they were facing a difficult time?'']"

definition QUESTION_TEMPLATES :: "(string \<times> string list) list" where
  "QUESTION_TEMPLATES =
     [(''OPENING'', OPENING), (''MEMORIES'', MEMORIES), (''WISDOM'', WISDOM),
      (''FEELINGS'', FEELINGS), (''FUTURE'', FUTURE)]"

definition EMOTIONAL_RESPONSES_followUp :: "(string \<times> string) list" where
  "EMOTIONAL_RESPONSES_followUp =
     [(''joyful'', ''What other moments have filled you with this same kind of joy?''),
      (''nostalgic'',
        ''What made this memory so special that it stayed with you all this time?''),
      (''melancholic'',
        ''Sometimes our most meaningful memories carry both joy and sadness. What would you want someone to understand about this?''),
      (''grateful'', ''How has this gratitude shaped the way you see the world?''),
      (''vulnerable'',
        ''What would you want someone to know if they were going through something similar?''),
      (''hopeful'', ''What keeps this hope alive in your heart?'')]"

definition generateFollowUpSuggestions :: "string \<Rightarrow> string list" where
  "generateFollowUpSuggestions emotionalState =
     (case map_of EMOTIONAL_RESPONSES_followUp emotionalState of
        Some followUp \<Rightarrow> [followUp]
      | None \<Rightarrow> [])"

text \<open>
  The fallback tier draws a template with \<^verbatim>\<open>Math.floor(Math.random() * templates.length)\<close>;
  the random number is the argument \<open>random\<close>, which the runtime takes from \<open>[0, 1)\<close>.
\<close>

definition templatesFor :: "string \<Rightarrow> string list" where
  \<comment> \<open>\<^verbatim>\<open>QUESTION_TEMPLATES[category.toUpperCase()] || QUESTION_TEMPLATES.OPENING\<close>\<close>
  "templatesFor category =
     (case map_of QUESTION_TEMPLATES (toUpperCase category) of
        Some ts \<Rightarrow> ts
      | None \<Rightarrow> OPENING)"

definition getFallbackQuestion :: "string \<Rightarrow> real \<Rightarrow> string" where
  "getFallbackQuestion category random =
     (let templates = templatesFor category
      in templates ! nat \<lfloor>random * real (length templates)\<rfloor>)"

definition allTemplates :: "string list" where
  "allTemplates = OPENING @ MEMORIES @ WISDOM @ FEELINGS @ FUTURE"

text \<open>What holds of every template: all but one are questions.\<close>

definition templateShape :: "string \<Rightarrow> bool" where
  "templateShape q =
     (q \<noteq> [] \<and> (endsWith q ''?''
        \<or> q = ''Tell me about a time when you felt most proud of yourself.''))"

definition isQuote :: "char \<Rightarrow> bool" where
  "isQuote c = (c = CHR 0x22 \<or> c = CHR 0x27)"

definition stripQuotes :: "string \<Rightarrow> string" where
  \<comment> \<open>\<^verbatim>\<open>replace(/^["']|["']$/g, '')\<close>: one quote at the start, one at the end.\<close>
  "stripQuotes s =
     (let s1 = (case s of [] \<Rightarrow> [] | c # cs \<Rightarrow> if isQuote c then cs else s)
      in if s1 \<noteq> [] \<and> isQuote (last s1) then butlast s1 else s1)"

definition cleanQuestion :: "string \<Rightarrow> string + string" where
  "cleanQuestion rawContent =
     (let trimmed = trim (stripQuotes rawContent);
          question = (if endsWith trimmed ''?'' then trimmed else trimmed @ ''?'')
      in if length question < 10 then Inl ''Generated question is too short''
         else Inr (if length question > 300 then take 297 question @ ''...''
                   else question))"

definition questionPrimary :: "ai_run \<Rightarrow> string \<Rightarrow> string \<Rightarrow> string + AIResponse" where
  "questionPrimary run emotionalState questionCategory =
     (case ensure_engine run of
        Some msg \<Rightarrow> Inl msg
      | None \<Rightarrow>
          if emotionalState = [] \<or> questionCategory = []
          then Inl ''Missing required parameters for question generation''
          else (case completion run of
                  Inl msg \<Rightarrow> Inl msg
                | Inr None \<Rightarrow> Inl ''AI returned empty response''
                | Inr (Some rawContent) \<Rightarrow>
                    if rawContent = [] \<or> trim rawContent = []
                    then Inl ''AI returned empty response''
                    else (case cleanQuestion rawContent of
                            Inl msg \<Rightarrow> Inl msg
                          | Inr question \<Rightarrow>
                              Inr \<lparr>content = question, confidence = 0.8,
                                   emotionalTone = emotionalState,
                                   suggestions =
                                     Some (generateFollowUpSuggestions emotionalState)\<rparr>)))"

text \<open>
  The whole body of \<^verbatim>\<open>generateInterviewQuestion\<close> is inside \<^verbatim>\<open>try\<close>, and the
  \<^verbatim>\<open>catch\<close> returns the template question: the method does not throw.
\<close>

definition generateInterviewQuestion ::
  "ai_run \<Rightarrow> (string \<times> string) list \<Rightarrow> string \<Rightarrow> string \<Rightarrow> nat \<Rightarrow> real \<Rightarrow> AIResponse" where
  "generateInterviewQuestion run previousResponses emotionalState questionCategory
       currentQuestionIndex random =
     (case questionPrimary run emotionalState questionCategory of
        Inr response \<Rightarrow> response
      | Inl err \<Rightarrow>
          \<lparr>content = getFallbackQuestion questionCategory random, confidence = 0.3,
           emotionalTone = emotionalState, suggestions = None\<rparr>)"

section \<open>Heirloom content\<close>

record GeneratedContent =
  content :: string
  title :: string
  emotionalTone :: string
  wordCount :: nat



subsection \<open>Parsing the generated text\<close>







subsection \<open>The templated letter\<close>








subsection \<open>The generation method\<close>



text \<open>
  A promise returned by \<^verbatim>\<open>generateTimeCapsuleContent\<close> is rejected (\<open>Inl\<close>) or fulfilled
  (\<open>Inr\<close>).  Every \<^verbatim>\<open>throw\<close> of the method is inside its \<^verbatim>\<open>try\<close>, and the
  \<^verbatim>\<open>catch\<close> returns the templated letter.  The argument \<^verbatim>\<open>length\<close> only selects the
  word count written into the prompt.
\<close>

definition targetWords :: "string \<Rightarrow> nat" where
  "targetWords len = (if len = ''long'' then 500 else if len = ''short'' then 150 else 300)"


section \<open>The hook over the manager\<close>


definition hookEmotionKeywords :: "(string \<times> string list) list" where
  "hookEmotionKeywords =
     [(''joyful'',
        [''happy'', ''joy'', ''excited'', ''wonderful'', ''amazing'', ''love'', ''great'']),
      (''nostalgic'',
        [''remember'', ''used to'', ''back then'', ''childhood'', ''past'', ''when I was'']),
      (''grateful'',
        [''thankful'', ''blessed'', ''appreciate'', ''grateful'', ''lucky'', ''fortunate'']),
      (''melancholic'',
        [''sad'', ''miss'', ''lost'', ''gone'', ''difficult'', ''hard'', ''wish'']),
      (''hopeful'',
        [''hope'', ''future'', ''dream'', ''wish'', ''believe'', ''will'', ''someday'']),
      (''loving'', [''love'', ''care'', ''dear'', ''precious'', ''cherish'', ''adore'']),
      (''proud'', [''proud'', ''accomplished'', ''achieved'', ''success'', ''overcome''])]"

definition keywordScore :: "string \<Rightarrow> string list \<Rightarrow> nat" where
  "keywordScore lowerText keywords =
     foldl (\<lambda>acc keyword. acc + (if includesStr lowerText keyword then 1 else 0)) 0 keywords"

fun dominantEmotion ::
  "string \<Rightarrow> (string \<times> string list) list \<Rightarrow> nat \<times> string \<Rightarrow> nat \<times> string" where
  "dominantEmotion lowerText [] best = best"
| "dominantEmotion lowerText ((emotion, keywords) # rest) (maxScore, dominant) =
     (let score = keywordScore lowerText keywords
      in if score > maxScore then dominantEmotion lowerText rest (score, emotion)
         else dominantEmotion lowerText rest (maxScore, dominant))"

definition hookEmotionFallback :: "string \<Rightarrow> string" where
  \<comment> \<open>the function \<^verbatim>\<open>analyzeEmotionFallback\<close> of the hook's module\<close>
  "hookEmotionFallback text =
     snd (dominantEmotion (toLowerCase text) hookEmotionKeywords (0, ''reflective''))"

definition analyzeEmotion :: "bool \<Rightarrow> bool \<Rightarrow> ai_run \<Rightarrow> string \<Rightarrow> string" where
  "analyzeEmotion isReady isAIEnabled run text =
     (if \<not> isReady \<or> \<not> isAIEnabled then hookEmotionFallback text
      else analyzeEmotionalState run text)"

section \<open>The model lifecycle manager\<close>

text \<open>
  \<^verbatim>\<open>WebLLMManager\<close> runs on one event loop.  Its state is the fields of the class, the
  promises \<^verbatim>\<open>doInitialize\<close> has created (a field refers to a promise by its index), and
  two records of what left the manager: every delivery of a progress event, and the number of
  calls of \<^verbatim>\<open>CreateMLCEngine\<close>.
\<close>

datatype stage = downloading | loading | ready | error

record AILoadingProgress =
  progress :: real
  progressText :: string
  stage :: stage

datatype listener = Callback nat | WindowEvent

datatype phase = Racing | WarmingUp | Fulfilled | Rejected string

record WebLLMManager =
  engine :: "nat option"
  isInitialized :: bool
  initPromise :: "nat option"
  progressCallbacks :: "nat list"
  promises :: "phase list"
  delivered :: "(listener \<times> AILoadingProgress) list"
  loads :: nat

definition newManager :: WebLLMManager where
  "newManager =
     \<lparr>engine = None, isInitialized = False, initPromise = None, progressCallbacks = [],
      promises = [], delivered = [], loads = 0\<rparr>"

definition onProgress :: "nat \<Rightarrow> WebLLMManager \<Rightarrow> WebLLMManager" where
  "onProgress callback m = m\<lparr>progressCallbacks := progressCallbacks m @ [callback]\<rparr>"

definition unsubscribe :: "nat \<Rightarrow> WebLLMManager \<Rightarrow> WebLLMManager" where
  "unsubscribe callback m =
     m\<lparr>progressCallbacks := filter (\<lambda>cb. cb \<noteq> callback) (progressCallbacks m)\<rparr>"

definition notifyProgress :: "AILoadingProgress \<Rightarrow> WebLLMManager \<Rightarrow> WebLLMManager" where
  "notifyProgress p m =
     m\<lparr>delivered := delivered m @ map (\<lambda>cb. (Callback cb, p)) (progressCallbacks m)
                       @ [(WindowEvent, p)]\<rparr>"

definition broadcasts :: "WebLLMManager \<Rightarrow> AILoadingProgress list" where
  "broadcasts m = map snd (filter (\<lambda>d. fst d = WindowEvent) (delivered m))"

text \<open>
  \<^verbatim>\<open>doInitialize\<close> runs up to its first \<^verbatim>\<open>await\<close> inside the call of
  \<^verbatim>\<open>initialize\<close>: it broadcasts the first event, arms the timer and starts the load.  The
  promise it returns is the new last entry of \<open>promises\<close>.
\<close>

definition doInitialize :: "WebLLMManager \<Rightarrow> nat \<times> WebLLMManager" where
  "doInitialize m =
     (let m1 = notifyProgress
                 \<lparr>progress = 0, progressText = ''Initializing AI...'', stage = downloading\<rparr> m
      in (length (promises m1),
          m1\<lparr>promises := promises m1 @ [Racing], loads := Suc (loads m1)\<rparr>))"

datatype returned = Immediately | Settles nat

definition initialize :: "WebLLMManager \<Rightarrow> returned \<times> WebLLMManager" where
  "initialize m =
     (if isInitialized m then (Immediately, m)
      else (case initPromise m of
              Some p \<Rightarrow> (Settles p, m)
            | None \<Rightarrow> (let started = doInitialize m
                       in (Settles (fst started),
                           (snd started)\<lparr>initPromise := Some (fst started)\<rparr>))))"

definition reportEvent :: "real \<Rightarrow> AILoadingProgress" where
  \<comment> \<open>the \<^verbatim>\<open>initProgressCallback\<close> handed to the runtime\<close>
  "reportEvent fraction =
     \<lparr>progress = fraction,
      progressText =
        (if fraction < 0.2 then ''Downloading AI model files...''
         else if fraction < 0.5 then ''Processing model components...''
         else if fraction < 0.8 then ''Preparing model for use...''
         else ''Finalizing AI initialization...''),
      stage = (if fraction < 0.8 then downloading else loading)\<rparr>"

definition errorText :: "string \<Rightarrow> string" where
  "errorText message =
     (if includesStr message ''timeout'' then ''AI initialization timed out''
      else if includesStr message ''network'' then ''Network error loading AI''
      else if includesStr message ''memory'' then ''Insufficient memory for AI''
      else ''AI unavailable'')"

definition raceLost :: "nat \<Rightarrow> string \<Rightarrow> WebLLMManager \<Rightarrow> WebLLMManager" where
  \<comment> \<open>the \<^verbatim>\<open>catch\<close> of \<^verbatim>\<open>doInitialize\<close>: broadcast the error stage, throw the error again\<close>
  "raceLost p message m =
     (notifyProgress \<lparr>progress = 0, progressText = errorText message, stage = error\<rparr> m)
       \<lparr>promises := (promises m)[p := Rejected message]\<rparr>"

text \<open>
  What the runtime and the timer can do to an operation \<open>p\<close>.  \<^verbatim>\<open>Promise.race\<close> takes the
  first of load and timer; an operation that is no longer racing ignores the other.  The timer
  is armed for \<open>initTimeout\<close> milliseconds; time itself is not part of the state, so the
  event of the timer can come at any point of a run.
\<close>

definition initTimeout :: nat where
  "initTimeout = 120000"

datatype event =
    Report nat real
  | LoadResolved nat nat
  | LoadRejected nat string
  | TimeoutFired nat
  | WarmupSettled nat

definition racing :: "nat \<Rightarrow> WebLLMManager \<Rightarrow> bool" where
  "racing p m = (p < length (promises m) \<and> promises m ! p = Racing)"

fun step :: "event \<Rightarrow> WebLLMManager \<Rightarrow> WebLLMManager" where
  "step (Report p fraction) m =
     (if p < length (promises m) then notifyProgress (reportEvent fraction) m else m)"
| "step (LoadResolved p e) m =
     (if racing p m
      then (notifyProgress
              \<lparr>progress = 1, progressText = ''AI ready for conversations!'', stage = ready\<rparr>
              (m\<lparr>engine := Some e, isInitialized := True\<rparr>))
             \<lparr>promises := (promises m)[p := WarmingUp]\<rparr>
      else m)"
| "step (LoadRejected p message) m = (if racing p m then raceLost p message m else m)"
| "step (TimeoutFired p) m =
     (if racing p m then raceLost p ''AI initialization timed out'' m else m)"
| "step (WarmupSettled p) m =
     (if p < length (promises m) \<and> promises m ! p = WarmingUp
      then m\<lparr>promises := (promises m)[p := Fulfilled]\<rparr>
      else m)"

definition run_events :: "event list \<Rightarrow> WebLLMManager \<Rightarrow> WebLLMManager" where
  "run_events evs m = fold step evs m"

definition isReady :: "WebLLMManager \<Rightarrow> bool" where
  "isReady m = (isInitialized m \<and> engine m \<noteq> None)"

definition unload :: "WebLLMManager \<Rightarrow> WebLLMManager" where
  "unload m =
     (if engine m \<noteq> None
      then m\<lparr>engine := None, isInitialized := False, initPromise := None\<rparr>
      else m)"

section \<open>Voice models and their store\<close>

datatype quality = high | medium | low

text \<open>A \<^verbatim>\<open>Blob\<close> of audio is known to the orchestration code by its size only.\<close>

type_synonym Blob = nat

record VoiceModel =
  modelId :: string
  name :: string
  samples :: "string list"
  sampleBlobs :: "Blob list option"
  createdAt :: nat
  isActive :: bool
  isElevenLabsModel :: bool
  quality :: quality

record VoiceConfig =
  sampleRate :: nat
  channelCount :: nat
  maxRecordingDuration :: nat
  minRecordingDuration :: nat
  maxFileSize :: nat
  requiredSamples :: nat

definition voiceConfig :: VoiceConfig where
  \<comment> \<open>the defaults of \<^verbatim>\<open>config.ts\<close>\<close>
  "voiceConfig =
     \<lparr>sampleRate = 44100, channelCount = 1, maxRecordingDuration = 120,
      minRecordingDuration = 3, maxFileSize = 10 * 1024 * 1024, requiredSamples = 3\<rparr>"

subsection \<open>Sanitization and validation in the creating hook\<close>

definition isWordChar :: "char \<Rightarrow> bool" where
  \<comment> \<open>the class \<^verbatim>\<open>\w\<close>\<close>
  "isWordChar c =
     (let n = (of_char c :: nat)
      in (48 \<le> n \<and> n \<le> 57) \<or> (65 \<le> n \<and> n \<le> 90) \<or> (97 \<le> n \<and> n \<le> 122) \<or> n = 95)"

definition isAlphaNum :: "char \<Rightarrow> bool" where
  "isAlphaNum c =
     (let n = (of_char c :: nat)
      in (48 \<le> n \<and> n \<le> 57) \<or> (65 \<le> n \<and> n \<le> 90) \<or> (97 \<le> n \<and> n \<le> 122))"

fun collapseWhiteSpace :: "bool \<Rightarrow> string \<Rightarrow> string" where
  \<comment> \<open>\<^verbatim>\<open>replace(/\s+/g, ' ')\<close>; the flag says that the run has already given its blank\<close>
  "collapseWhiteSpace inRun [] = []"
| "collapseWhiteSpace inRun (c # cs) =
     (if isWhiteSpace c
      then (if inRun then collapseWhiteSpace True cs
            else CHR '' '' # collapseWhiteSpace True cs)
      else c # collapseWhiteSpace False cs)"

definition sanitizeName :: "string \<Rightarrow> string" where
  "sanitizeName input =
     (if input = [] then []
      else take 100
             (collapseWhiteSpace False
                (filter (\<lambda>c. isWordChar c \<or> isWhiteSpace c \<or> c = CHR 0x27 \<or> c = CHR ''-'')
                   (trim input))))"

definition sanitizeVoiceModel :: "VoiceModel \<Rightarrow> VoiceModel" where
  "sanitizeVoiceModel model =
     model\<lparr>name := sanitizeName (name model), modelId := sanitizeName (modelId model)\<rparr>"

definition BlobSchema :: "Blob \<Rightarrow> bool" where
  "BlobSchema blob = (blob > 0 \<and> blob < 50 * 1024 * 1024)"

definition voiceNamePattern :: "string \<Rightarrow> bool" where
  \<comment> \<open>\<^verbatim>\<open>/^[a-zA-Z0-9\s'-]+$/\<close>\<close>
  "voiceNamePattern s =
     (s \<noteq> [] \<and> list_all (\<lambda>c. isAlphaNum c \<or> isWhiteSpace c \<or> c = CHR 0x27 \<or> c = CHR ''-'') s)"

definition validateVoiceModel :: "VoiceModel \<Rightarrow> bool" where
  \<comment> \<open>\<^verbatim>\<open>VoiceModelSchema.safeParse(data).success\<close>\<close>
  "validateVoiceModel v =
     (length (modelId v) \<ge> 1
      \<and> length (name v) \<ge> 2 \<and> length (name v) \<le> 50 \<and> voiceNamePattern (name v)
      \<and> length (samples v) \<ge> 1
      \<and> (case sampleBlobs v of
            None \<Rightarrow> True
          | Some blobs \<Rightarrow> list_all BlobSchema blobs \<and> length blobs \<ge> 3))"

text \<open>
  The table \<^verbatim>\<open>voiceModels\<close> in the order of its primary key.  \<^verbatim>\<open>add\<close> runs the creating
  hook, which throws for a record that fails validation; the write itself can fail in the
  browser, which is the argument \<open>writable\<close>.
\<close>

definition voiceModels_add ::
  "bool \<Rightarrow> VoiceModel \<Rightarrow> VoiceModel list \<Rightarrow> string + VoiceModel list" where
  "voiceModels_add writable obj table =
     (let sanitized = sanitizeVoiceModel obj
      in if \<not> validateVoiceModel sanitized then Inl ''Invalid voice model data''
         else if \<not> writable then Inl ''The write to the database failed''
         else Inr (table @ [sanitized]))"

definition voiceModels_first :: "string \<Rightarrow> VoiceModel list \<Rightarrow> VoiceModel option" where
  \<comment> \<open>\<^verbatim>\<open>db.voiceModels.where('modelId').equals(id).first()\<close>\<close>
  "voiceModels_first wanted table = find (\<lambda>v. modelId v = wanted) table"

subsection \<open>The remote service\<close>

text \<open>
  What a \<^verbatim>\<open>fetch\<close> comes back with is outside the program: it is rejected, or it gives a
  response with its \<^verbatim>\<open>ok\<close> flag, its status text and its body.  Reading the body as
  JSON can fail.  The requests the client makes are recorded by their URL.
\<close>

datatype 'a fetched = FetchRejected string | Responded bool string 'a

definition baseUrl :: string where
  "baseUrl = ''https://api.elevenlabs.io/v1''"

definition ElevenLabs_cloneVoice ::
  "string \<Rightarrow> (string + string) fetched \<Rightarrow> string \<Rightarrow> string list
     \<Rightarrow> (string + string) \<times> string list" where
  "ElevenLabs_cloneVoice apiKey answer voiceName audioFiles =
     (if apiKey = [] then (Inl ''ElevenLabs API key not configured'', [])
      else (case answer of
              FetchRejected message \<Rightarrow> Inl message
            | Responded ok statusText body \<Rightarrow>
                if \<not> ok then Inl (''Voice cloning failed: '' @ statusText)
                else (case body of
                        Inl message \<Rightarrow> Inl message
                      | Inr voice_id \<Rightarrow> Inr voice_id),
            [baseUrl @ ''/voices/add'']))"


subsection \<open>Cloning\<close>

fun showNat :: "nat \<Rightarrow> string" where
  \<comment> \<open>a number in a template literal: its decimal digits\<close>
  "showNat n =
     (if n < 10 then [''0123456789'' ! n]
      else showNat (n div 10) @ [''0123456789'' ! (n mod 10)])"

declare showNat.simps [simp del]

fun validateSamples :: "VoiceConfig \<Rightarrow> nat \<Rightarrow> Blob list \<Rightarrow> string option" where
  \<comment> \<open>the loop over the samples; the first violation is thrown\<close>
  "validateSamples cfg i [] = None"
| "validateSamples cfg i (bytes # rest) =
     (if bytes = 0
      then Some (''Voice sample '' @ showNat (i + 1) @ '' is empty or corrupted'')
      else if bytes < 1000
      then Some (''Voice sample '' @ showNat (i + 1) @ '' is too short for quality cloning'')
      else if bytes > maxFileSize cfg
      then Some (''Voice sample '' @ showNat (i + 1) @ '' is too large (max ''
                   @ showNat ((maxFileSize cfg + 524288) div 1048576) @ ''MB)'')
      else validateSamples cfg (i + 1) rest)"

definition localModelId :: "nat \<Rightarrow> string \<Rightarrow> string" where
  \<comment> \<open>\<^verbatim>\<open>local_${Date.now()}_${Math.random().toString(36).substr(2, 9)}\<close>\<close>
  "localModelId now randomDigits = ''local_'' @ showNat now @ ''_'' @ randomDigits"

definition sampleFileNames :: "Blob list \<Rightarrow> string list" where
  "sampleFileNames blobs =
     map (\<lambda>index. ''sample_'' @ showNat index @ ''.wav'') [0 ..< length blobs]"

text \<open>
  One call of \<^verbatim>\<open>cloneVoice\<close> of the hook \<^verbatim>\<open>useVoice\<close>.  Its surroundings are the
  configuration, the API key, the answer of the remote service, the clock and the random
  digits of a local id, and whether the database can be written.  It returns what the caller
  gets (\<open>Inl\<close> for a thrown error), the table afterwards and the requests made.
\<close>

record clone_world =
  config :: VoiceConfig
  apiKey :: string
  cloneAnswer :: "(string + string) fetched"
  now :: nat
  randomDigits :: string
  writable :: bool

definition cloneVoice ::
  "clone_world \<Rightarrow> VoiceModel list \<Rightarrow> string \<Rightarrow> Blob list
     \<Rightarrow> (string + string) \<times> VoiceModel list \<times> string list" where
  "cloneVoice w table voiceName blobs =
     (if voiceName = [] \<or> length (trim voiceName) = 0
      then (Inl ''Voice name is required for cloning'', table, [])
      else if length blobs = 0
      then (Inl ''Voice samples are required for cloning'', table, [])
      else if length blobs < requiredSamples (config w)
      then (Inl (''At least '' @ showNat (requiredSamples (config w))
                   @ '' voice samples are required for quality cloning''), table, [])
      else (case validateSamples (config w) 0 blobs of
              Some message \<Rightarrow> (Inl (''Voice Cloning Error: '' @ message), table, [])
            | None \<Rightarrow>
                (let audioFiles = sampleFileNames blobs;
                     remote = ElevenLabs_cloneVoice (apiKey w) (cloneAnswer w) voiceName
                                audioFiles;
                     fromRemote = (case fst remote of Inr voice_id \<Rightarrow> True | Inl err \<Rightarrow> False);
                     newId = (case fst remote of
                                Inr voice_id \<Rightarrow> voice_id
                              | Inl err \<Rightarrow> localModelId (now w) (randomDigits w))
                 in (case voiceModels_add (writable w)
                            \<lparr>modelId = newId, name = trim voiceName, samples = audioFiles,
                             sampleBlobs = Some blobs, createdAt = now w, isActive = True,
                             isElevenLabsModel = fromRemote,
                             quality = (if fromRemote then high else medium)\<rparr>
                            table of
                       Inl dbError \<Rightarrow>
                         (Inl (''Voice Cloning Error: ''
                                 @ ''Failed to save voice model. Please try again.''),
                          table, snd remote)
                     | Inr table' \<Rightarrow> (Inr newId, table', snd remote)))))"

subsection \<open>Speech\<close>






subsection \<open>Example surroundings\<close>

text \<open>A browser without an API key, and a stored model of local origin.\<close>

definition offlineWorld :: clone_world where
  "offlineWorld =
     \<lparr>config = voiceConfig, apiKey = [], cloneAnswer = FetchRejected ''offline'',
      now = 1700000000000, randomDigits = ''k3j9x0a1b'', writable = True\<rparr>"


section \<open>Encryption of content\<close>

subsection \<open>The platform\<close>

text \<open>
  \<^verbatim>\<open>CapsuleEncryption\<close> is written over the browser: the text codecs, Web Crypto, base64
  and JSON.  These are arguments of the embedding.  A \<^verbatim>\<open>CryptoKey\<close> for AES is its raw
  bytes, so that exporting a key gives the bytes and importing bytes of a key length gives the
  key.  Each function that can throw returns \<open>Inl\<close> with the message.
\<close>

type_synonym byte = "8 word"

type_synonym CryptoKey = "byte list"

record EncryptedBlob =
  encryptedData :: string
  salt :: string
  iv :: string

datatype parsed = SyntaxError | NoBlob | Blob EncryptedBlob

record platform =
  encodeText :: "string \<Rightarrow> byte list"
  decodeText :: "byte list \<Rightarrow> string"
  subtleEncrypt :: "CryptoKey \<Rightarrow> byte list \<Rightarrow> byte list \<Rightarrow> string + byte list"
  subtleDecrypt :: "CryptoKey \<Rightarrow> byte list \<Rightarrow> byte list \<Rightarrow> string + byte list"
  deriveBits :: "byte list \<Rightarrow> byte list \<Rightarrow> CryptoKey"
  btoa :: "string \<Rightarrow> string"
  atob :: "string \<Rightarrow> string + string"
  jsonStringify :: "EncryptedBlob \<Rightarrow> string"
  jsonParse :: "string \<Rightarrow> parsed"
  setItemAllowed :: "string \<Rightarrow> string \<Rightarrow> bool"

text \<open>
  \<^verbatim>\<open>JSON.parse\<close> throws a \<^verbatim>\<open>SyntaxError\<close>, or gives a value without the three fields
  (\<open>NoBlob\<close>, on which the field checks of the caller throw), or gives the three fields.
  \<^verbatim>\<open>localStorage.setItem\<close> throws when the browser refuses the write.
\<close>

type_synonym localStorage = "string \<Rightarrow> string option"

text \<open>The random values one call of \<^verbatim>\<open>encrypt\<close> draws: salt, vector and a new key.\<close>

record entropy =
  randomSalt :: "byte list"
  randomIv :: "byte list"
  randomKey :: CryptoKey

definition fromCharCode :: "byte \<Rightarrow> char" where
  "fromCharCode b = char_of (unat b)"

definition charCodeAt :: "char \<Rightarrow> byte" where
  "charCodeAt c = word_of_nat (of_char c)"

definition arrayBufferToBase64 :: "platform \<Rightarrow> byte list \<Rightarrow> string" where
  "arrayBufferToBase64 P buffer = btoa P (map fromCharCode buffer)"

definition base64ToArrayBuffer :: "platform \<Rightarrow> string \<Rightarrow> string + byte list" where
  "base64ToArrayBuffer P base64 =
     (case atob P base64 of
        Inl message \<Rightarrow> Inl message
      | Inr binary \<Rightarrow> Inr (map charCodeAt binary))"

definition importKey :: "byte list \<Rightarrow> string + CryptoKey" where
  "importKey raw =
     (if length raw = 16 \<or> length raw = 24 \<or> length raw = 32 then Inr raw
      else Inl ''DataError'')"

definition deriveKey :: "platform \<Rightarrow> string \<Rightarrow> byte list \<Rightarrow> CryptoKey" where
  "deriveKey P password saltBytes = deriveBits P (encodeText P password) saltBytes"

subsection \<open>The class CapsuleEncryption\<close>

definition storeKey :: "platform \<Rightarrow> CryptoKey \<Rightarrow> localStorage \<Rightarrow> string + localStorage" where
  "storeKey P key ls =
     (let exported = arrayBufferToBase64 P key
      in if setItemAllowed P ''capsule_key'' exported
         then Inr (ls(''capsule_key'' \<mapsto> exported))
         else Inl ''QuotaExceededError'')"

definition retrieveKey :: "platform \<Rightarrow> localStorage \<Rightarrow> string + CryptoKey" where
  "retrieveKey P ls =
     (case ls ''capsule_key'' of
        None \<Rightarrow> Inl ''No encryption key found''
      | Some keyData \<Rightarrow>
          if keyData = [] then Inl ''No encryption key found''
          else (case base64ToArrayBuffer P keyData of
                  Inl message \<Rightarrow> Inl message
                | Inr keyBuffer \<Rightarrow> importKey keyBuffer))"

definition encrypt ::
  "platform \<Rightarrow> entropy \<Rightarrow> string \<Rightarrow> string option \<Rightarrow> localStorage
     \<Rightarrow> (string + EncryptedBlob) \<times> localStorage" where
  "encrypt P rnd plain password ls =
     (let bytes = encodeText P plain;
          usePassword = (case password of Some pw \<Rightarrow> pw \<noteq> [] | None \<Rightarrow> False);
          keyed = (if usePassword
                   then (Inr (deriveKey P (the password) (randomSalt rnd)), ls)
                   else (case storeKey P (randomKey rnd) ls of
                           Inl message \<Rightarrow> (Inl message, ls)
                         | Inr ls' \<Rightarrow> (Inr (randomKey rnd), ls')))
      in (case fst keyed of
            Inl message \<Rightarrow> (Inl message, snd keyed)
          | Inr key \<Rightarrow>
              (case subtleEncrypt P key (randomIv rnd) bytes of
                 Inl message \<Rightarrow> (Inl message, snd keyed)
               | Inr cipher \<Rightarrow>
                   (Inr \<lparr>encryptedData = arrayBufferToBase64 P cipher,
                         salt = arrayBufferToBase64 P (randomSalt rnd),
                         iv = arrayBufferToBase64 P (randomIv rnd)\<rparr>,
                    snd keyed))))"

definition decrypt ::
  "platform \<Rightarrow> string \<Rightarrow> string \<Rightarrow> string \<Rightarrow> string option \<Rightarrow> localStorage
     \<Rightarrow> string + string" where
  "decrypt P cipherText saltText ivText password ls =
     (case base64ToArrayBuffer P cipherText of
        Inl message \<Rightarrow> Inl message
      | Inr encryptedBuffer \<Rightarrow>
          (case base64ToArrayBuffer P saltText of
             Inl message \<Rightarrow> Inl message
           | Inr saltBuffer \<Rightarrow>
               (case base64ToArrayBuffer P ivText of
                  Inl message \<Rightarrow> Inl message
                | Inr ivBuffer \<Rightarrow>
                    (case (if (case password of Some pw \<Rightarrow> pw \<noteq> [] | None \<Rightarrow> False)
                           then Inr (deriveKey P (the password) saltBuffer)
                           else retrieveKey P ls) of
                       Inl message \<Rightarrow> Inl message
                     | Inr key \<Rightarrow>
                         (case subtleDecrypt P key ivBuffer encryptedBuffer of
                            Inl message \<Rightarrow> Inl message
                          | Inr decrypted \<Rightarrow> Inr (decodeText P decrypted))))))"

section \<open>Capsules and the hooks of their table\<close>

datatype capsuleType = legacy | family | future_self

datatype capsuleStatus = draft | scheduled | delivered | locked

datatype generationMethod = ai | template | manual

record capsuleMetadata =
  tone :: string
  emotionalState :: string
  interviewResponses :: "(string \<times> string) list"
  aiConfidence :: "real option"
  generationMethod :: generationMethod
  voiceCloned :: bool

record TimeCapsule =
  title :: string
  recipient :: string
  capsuleType :: capsuleType
  status :: capsuleStatus
  content :: string
  encryptedContent :: "string option"
  voiceModelId :: "string option"
  audioBlob :: "Blob option"
  isEncrypted :: bool
  wordCount :: nat
  isAIGenerated :: bool
  metadata :: capsuleMetadata

definition htmlEntity :: "char \<Rightarrow> string" where
  "htmlEntity c =
     (if c = CHR ''&'' then ''&amp;''
      else if c = CHR ''<'' then ''&lt;''
      else if c = CHR ''>'' then ''&gt;''
      else if c = CHR 0x22 then ''&quot;''
      else if c = CHR 0x27 then ''&#x27;''
      else if c = CHR ''/'' then ''&#x2F;''
      else [c])"

text \<open>
  In \<^verbatim>\<open>sanitizeText\<close> the replacement of runs of white space by one blank leaves no line
  feed, so the replacement of three line feeds that follows it finds nothing.
\<close>

definition sanitizeText :: "string \<Rightarrow> string" where
  "sanitizeText input =
     (if input = [] then []
      else trim (collapseWhiteSpace False (concat (map htmlEntity input))))"




definition encryptCapsuleContent ::
  "platform \<Rightarrow> entropy \<Rightarrow> TimeCapsule \<Rightarrow> localStorage \<Rightarrow> TimeCapsule \<times> localStorage" where
  "encryptCapsuleContent P rnd capsule ls =
     (if content capsule = [] \<or> length (trim (content capsule)) = 0 then (capsule, ls)
      else (case encrypt P rnd (content capsule) None ls of
              (Inr encrypted, ls') \<Rightarrow>
                (capsule\<lparr>encryptedContent := Some (jsonStringify P encrypted),
                         content := ''[ENCRYPTED]''\<rparr>, ls')
            | (Inl message, ls') \<Rightarrow> (capsule, ls')))"


record capsuleChanges =
  newTitle :: "string option"
  newRecipient :: "string option"
  newContent :: "string option"
  newIsEncrypted :: "bool option"

definition applyChanges :: "capsuleChanges \<Rightarrow> TimeCapsule \<Rightarrow> TimeCapsule" where
  "applyChanges mods obj =
     obj\<lparr>title := (case newTitle mods of Some t \<Rightarrow> t | None \<Rightarrow> title obj),
         recipient := (case newRecipient mods of Some r \<Rightarrow> r | None \<Rightarrow> recipient obj),
         content := (case newContent mods of Some c \<Rightarrow> c | None \<Rightarrow> content obj),
         isEncrypted := (case newIsEncrypted mods of Some b \<Rightarrow> b | None \<Rightarrow> isEncrypted obj)\<rparr>"

definition sanitizeChanges :: "capsuleChanges \<Rightarrow> capsuleChanges" where
  "sanitizeChanges mods =
     mods\<lparr>newTitle := map_option sanitizeName (newTitle mods),
          newRecipient := map_option sanitizeName (newRecipient mods),
          newContent := map_option sanitizeText (newContent mods)\<rparr>"

definition updating ::
  "platform \<Rightarrow> entropy \<Rightarrow> capsuleChanges \<Rightarrow> TimeCapsule \<Rightarrow> localStorage
     \<Rightarrow> TimeCapsule \<times> localStorage" where
  "updating P rnd modifications obj ls =
     (let mods = sanitizeChanges modifications
      in if (case newContent mods of Some c \<Rightarrow> c \<noteq> [] | None \<Rightarrow> False) \<and> isEncrypted obj
         then (applyChanges mods obj,
               snd (encryptCapsuleContent P rnd (applyChanges mods obj) ls))
         else (applyChanges mods obj, ls))"

definition getCapsuleContent :: "platform \<Rightarrow> TimeCapsule \<Rightarrow> localStorage \<Rightarrow> string" where
  "getCapsuleContent P capsule ls =
     (case (if isEncrypted capsule then encryptedContent capsule else None) of
        None \<Rightarrow> content capsule
      | Some stored \<Rightarrow>
          if stored = [] then content capsule
          else if trim stored = [] then ''[CONTENT ENCRYPTED - NO DATA]''
          else (case jsonParse P stored of
                  SyntaxError \<Rightarrow> ''[CONTENT ENCRYPTED - CORRUPTED DATA]''
                | NoBlob \<Rightarrow> ''[CONTENT ENCRYPTED - UNABLE TO DECRYPT]''
                | Blob b \<Rightarrow>
                    if encryptedData b = [] \<or> salt b = [] \<or> iv b = []
                    then ''[CONTENT ENCRYPTED - UNABLE TO DECRYPT]''
                    else (case decrypt P (encryptedData b) (salt b) (iv b) None ls of
                            Inr plain \<Rightarrow> plain
                          | Inl message \<Rightarrow> ''[CONTENT ENCRYPTED - UNABLE TO DECRYPT]'')))"

section \<open>What is assumed of the platform\<close>

text \<open>
  The contracts of the browser functions that the properties of the encryption rest on:
  \<^verbatim>\<open>atob\<close> inverts \<^verbatim>\<open>btoa\<close>, which gives a non-empty text for a non-empty input;
  AES-GCM decryption with the key and the vector of the encryption gives the plaintext back;
  and, as an idealisation of its authentication, decryption with another key of 256 bits is
  rejected.
\<close>

definition base64_contract :: "platform \<Rightarrow> bool" where
  "base64_contract P =
     ((\<forall>s. atob P (btoa P s) = Inr s) \<and> (\<forall>s. s \<noteq> [] \<longrightarrow> btoa P s \<noteq> []))"

definition cipher_contract :: "platform \<Rightarrow> bool" where
  "cipher_contract P =
     (\<forall>key vec plain cipher.
        subtleEncrypt P key vec plain = Inr cipher
        \<longrightarrow> subtleDecrypt P key vec cipher = Inr plain)"

definition cipher_authentic :: "platform \<Rightarrow> bool" where
  "cipher_authentic P =
     (\<forall>key other vec plain cipher.
        subtleEncrypt P key vec plain = Inr cipher \<longrightarrow> length key = 32
        \<longrightarrow> length other = 32 \<longrightarrow> other \<noteq> key
        \<longrightarrow> isl (subtleDecrypt P other vec cipher))"

subsection \<open>A small platform\<close>

text \<open>
  A platform on which the contracts hold, to run the definitions on: the codec of the code
  units below 256, a sealed box in place of AES-GCM, the identity in place of base64, and the
  JSON text of a blob whose fields need no escape.
\<close>

definition boxEncrypt :: "CryptoKey \<Rightarrow> byte list \<Rightarrow> byte list \<Rightarrow> string + byte list" where
  "boxEncrypt key vec plain = Inr (key @ vec @ plain)"

definition boxDecrypt :: "CryptoKey \<Rightarrow> byte list \<Rightarrow> byte list \<Rightarrow> string + byte list" where
  "boxDecrypt key vec cipher =
     (if take (length key) cipher = key
         \<and> take (length vec) (drop (length key) cipher) = vec
      then Inr (drop (length key + length vec) cipher)
      else Inl ''OperationError'')"

definition blobText :: "EncryptedBlob \<Rightarrow> string" where
  "blobText b =
     ''{\"encryptedData\":\"'' @ encryptedData b @ ''\",\"salt\":\"'' @ salt b
     @ ''\",\"iv\":\"'' @ iv b @ ''\"}''"

definition afterPrefix :: "string \<Rightarrow> string \<Rightarrow> string option" where
  "afterPrefix p s = (if startsWith s p then Some (drop (length p) s) else None)"

definition readBlob :: "string \<Rightarrow> parsed" where
  "readBlob s =
     (case afterPrefix ''{\"encryptedData\":\"'' s of
        None \<Rightarrow> SyntaxError
      | Some r1 \<Rightarrow>
          (let f1 = takeWhile (\<lambda>c. c \<noteq> CHR 0x22) r1
           in case afterPrefix ''\",\"salt\":\"'' (drop (length f1) r1) of
                None \<Rightarrow> SyntaxError
              | Some r2 \<Rightarrow>
                  (let f2 = takeWhile (\<lambda>c. c \<noteq> CHR 0x22) r2
                   in case afterPrefix ''\",\"iv\":\"'' (drop (length f2) r2) of
                        None \<Rightarrow> SyntaxError
                      | Some r3 \<Rightarrow>
                          (let f3 = takeWhile (\<lambda>c. c \<noteq> CHR 0x22) r3
                           in if drop (length f3) r3 = ''\"}''
                              then Blob \<lparr>encryptedData = f1, salt = f2, iv = f3\<rparr>
                              else SyntaxError))))"

definition smallPlatform :: platform where
  "smallPlatform =
     \<lparr>encodeText = map charCodeAt, decodeText = map fromCharCode,
      subtleEncrypt = boxEncrypt, subtleDecrypt = boxDecrypt,
      deriveBits = (\<lambda>password saltBytes. take 32 (password @ saltBytes @ replicate 32 0)),
      btoa = (\<lambda>s. s), atob = Inr,
      jsonStringify = blobText, jsonParse = readBlob,
      setItemAllowed = (\<lambda>k v. True)\<rparr>"


definition entropyA :: entropy where
  "entropyA =
     \<lparr>randomSalt = replicate 16 1, randomIv = replicate 12 2, randomKey = replicate 32 65\<rparr>"

definition entropyB :: entropy where
  "entropyB =
     \<lparr>randomSalt = replicate 16 3, randomIv = replicate 12 4, randomKey = replicate 32 66\<rparr>"

definition letter :: TimeCapsule where
  "letter =
     \<lparr>title = ''For Ada'', recipient = ''Ada'', capsuleType = family, status = draft,
      content = ''Dear Ada, keep the garden.'', encryptedContent = None,
      voiceModelId = None, audioBlob = None, isEncrypted = True, wordCount = 5,
      isAIGenerated = False,
      metadata = \<lparr>tone = ''heartfelt'', emotionalState = ''reflective'',
                    interviewResponses = [], aiConfidence = None,
                    generationMethod = manual, voiceCloned = False\<rparr>\<rparr>"


section \<open>Properties of emotion classification\<close>

lemma validateEmotion_valid: "validateEmotion e \<in> set validEmotions"
  by (simp add: validateEmotion_def) (simp add: validEmotions_def)

lemma fallbackEmotions_valid:
  "e \<in> set fallbackEmotions \<Longrightarrow> e \<in> set validEmotions"
  by (auto simp: fallbackEmotions_def validEmotions_def)

lemma find_emotionKeywords:
  "find P emotionKeywords = Some entry \<Longrightarrow> fst entry \<in> set fallbackEmotions"
  by (auto simp: emotionKeywords_def fallbackEmotions_def split: if_splits)

lemma analyzeEmotionFallback_subset: "analyzeEmotionFallback text \<in> set fallbackEmotions"
proof (cases "find (keywordHit (toLowerCase text)) emotionKeywords")
  case None
  then show ?thesis by (simp add: analyzeEmotionFallback_def fallbackEmotions_def)
next
  case (Some entry)
  then show ?thesis by (simp add: analyzeEmotionFallback_def find_emotionKeywords)
qed

lemma analyzeEmotionFallback_default:
  "\<not> list_ex (keywordHit (toLowerCase text)) emotionKeywords
   \<Longrightarrow> analyzeEmotionFallback text = ''reflective''"
proof -
  assume "\<not> list_ex (keywordHit (toLowerCase text)) emotionKeywords"
  then have "find (keywordHit (toLowerCase text)) emotionKeywords = None"
    by (simp add: find_None_iff list_ex_iff)
  then show ?thesis by (simp add: analyzeEmotionFallback_def)
qed

lemma dominantEmotion_label:
  "snd (dominantEmotion lowerText table (best, label)) \<in> insert label (fst ` set table)"
  by (induction lowerText table "(best, label)" arbitrary: best label
      rule: dominantEmotion.induct) (auto simp: Let_def)

lemma hookEmotionFallback_valid: "hookEmotionFallback text \<in> set validEmotions"
proof -
  have "hookEmotionFallback text \<in> insert ''reflective'' (fst ` set hookEmotionKeywords)"
    unfolding hookEmotionFallback_def by (rule dominantEmotion_label)
  moreover have "insert ''reflective'' (fst ` set hookEmotionKeywords) \<subseteq> set validEmotions"
    by (simp add: hookEmotionKeywords_def validEmotions_def)
  ultimately show ?thesis by blast
qed

text \<open>
  C9.  For every run of the runtime and every input text, the empty string included,
  \<^verbatim>\<open>analyzeEmotionalState\<close> returns a label of the fixed allowed set.  On the model path
  an answer outside the set is replaced by \<^verbatim>\<open>reflective\<close>; the keyword heuristic of the
  fallback path returns one of six of the labels, and \<^verbatim>\<open>reflective\<close> when no keyword
  occurs in the text.  The same holds of \<^verbatim>\<open>analyzeEmotion\<close> of the hook, which uses its own
  heuristic when the hook is not ready.
\<close>

theorem analyzeEmotionalState_allowed:
  "analyzeEmotionalState run text \<in> set validEmotions
   \<and> analyzeEmotionalState run [] \<in> set validEmotions
   \<and> validateEmotion e = (if e \<in> set validEmotions then e else ''reflective'')
   \<and> analyzeEmotionFallback text \<in> set fallbackEmotions
   \<and> list_all (\<lambda>e. e \<in> set validEmotions) fallbackEmotions
   \<and> (\<not> list_ex (keywordHit (toLowerCase text)) emotionKeywords
        \<longrightarrow> analyzeEmotionFallback text = ''reflective'')
   \<and> analyzeEmotion hookReady aiEnabled run text \<in> set validEmotions"
proof -
  have allowed: "analyzeEmotionalState r t \<in> set validEmotions" for r t
  proof (cases "completion_call r")
    case (Inl err)
    then show ?thesis
      by (simp add: analyzeEmotionalState_def analyzeEmotionFallback_subset
          fallbackEmotions_valid)
  next
    case (Inr answer)
    then show ?thesis
      by (simp add: analyzeEmotionalState_def validateEmotion_valid)
  qed
  have sub: "list_all (\<lambda>e. e \<in> set validEmotions) fallbackEmotions"
    by (simp add: fallbackEmotions_def validEmotions_def)
  have hook: "analyzeEmotion hookReady aiEnabled run text \<in> set validEmotions"
    using allowed hookEmotionFallback_valid by (simp add: analyzeEmotion_def)
  show ?thesis
    using allowed sub hook analyzeEmotionFallback_subset analyzeEmotionFallback_default
    by (simp add: validateEmotion_def)
qed

theorem analyzeEmotionalState_allowed_witness:
  "analyzeEmotionalState \<lparr>init_outcome = None, engine_present = True,
      completion = Inr (Some '' Cheerful '')\<rparr> ''I miss the old house'' = ''reflective''
   \<and> analyzeEmotionFallback ''I miss the old house'' = ''melancholic''
   \<and> \<not> list_ex (keywordHit (toLowerCase [])) emotionKeywords
   \<and> analyzeEmotionFallback [] = ''reflective''"
proof -
  have none: "\<not> list_ex (keywordHit (toLowerCase [])) emotionKeywords"
    by (simp add: keywordHit_def emotionKeywords_def toLowerCase_def)
  have "analyzeEmotionFallback [] = ''reflective''"
    using analyzeEmotionalState_allowed [of _ "[]"] none by blast
  moreover have "analyzeEmotionFallback ''I miss the old house'' = ''melancholic''"
    by code_simp
  moreover have "analyzeEmotionalState \<lparr>init_outcome = None, engine_present = True,
      completion = Inr (Some '' Cheerful '')\<rparr> ''I miss the old house'' = ''reflective''"
    by code_simp
  ultimately show ?thesis using none by simp
qed

section \<open>Properties of question generation\<close>

lemma startsWith_append: "startsWith (p @ s) p"
  by (induction p) auto

lemma endsWith_append: "endsWith (s @ suffix) suffix"
  by (simp add: endsWith_def startsWith_append)

lemma cleanQuestion_shape:
  assumes "cleanQuestion rawContent = Inr q"
  shows "10 \<le> length q \<and> length q \<le> 300
         \<and> (endsWith q ''?'' \<or> (length q = 300 \<and> endsWith q ''...''))"
proof -
  define t where "t = trim (stripQuotes rawContent)"
  define u where "u = (if endsWith t ''?'' then t else t @ ''?'')"
  have u_q: "endsWith u ''?''"
    unfolding u_def using endsWith_append [of t "''?''"] by simp
  have ok: "\<not> length u < 10"
    and q: "q = (if length u > 300 then take 297 u @ ''...'' else u)"
    using assms unfolding cleanQuestion_def t_def [symmetric] Let_def u_def [symmetric]
    by (auto split: if_splits)
  show ?thesis
  proof (cases "length u > 300")
    case True
    then have "q = take 297 u @ ''...''" using q by simp
    moreover have "length (take 297 u @ ''...'') = 300" using True by simp
    ultimately show ?thesis using endsWith_append [of "take 297 u" "''...''"] by simp
  next
    case False
    then show ?thesis using q ok u_q by simp
  qed
qed

lemma questionPrimary_shape:
  assumes "questionPrimary run emotion questionCategory = Inr r"
  shows "10 \<le> length (AIResponse.content r) \<and> length (AIResponse.content r) \<le> 300
         \<and> (endsWith (AIResponse.content r) ''?''
              \<or> (length (AIResponse.content r) = 300 \<and> endsWith (AIResponse.content r) ''...''))"
proof -
  from assms obtain raw q where "cleanQuestion raw = Inr q" and "AIResponse.content r = q"
    by (auto simp: questionPrimary_def split: option.splits if_splits sum.splits)
  then show ?thesis using cleanQuestion_shape [of raw q] by simp
qed

lemma random_index:
  assumes "0 \<le> r" "r < 1" "0 < n"
  shows "nat \<lfloor>r * real n\<rfloor> < n"
proof -
  have "r * real n < real n" using assms by simp
  then have "\<lfloor>r * real n\<rfloor> < int n" by (simp add: floor_less_iff)
  then show ?thesis using assms by linarith
qed

lemma templatesFor_cases: "templatesFor c \<in> {OPENING, MEMORIES, WISDOM, FEELINGS, FUTURE}"
  by (auto simp: templatesFor_def QUESTION_TEMPLATES_def split: option.splits if_splits)

lemma templatesFor_nonempty: "0 < length (templatesFor c)"
  using templatesFor_cases [of c]
  by (auto simp: OPENING_def MEMORIES_def WISDOM_def FEELINGS_def FUTURE_def)

lemma templatesFor_sub: "q \<in> set (templatesFor c) \<Longrightarrow> q \<in> set allTemplates"
  using templatesFor_cases [of c] by (auto simp: allTemplates_def)

lemma getFallbackQuestion_in_pool:
  assumes "0 \<le> r" "r < 1"
  shows "getFallbackQuestion c r \<in> set (templatesFor c)"
proof -
  have "getFallbackQuestion c r
          = templatesFor c ! nat \<lfloor>r * real (length (templatesFor c))\<rfloor>"
    by (simp add: getFallbackQuestion_def Let_def)
  then show ?thesis using random_index [OF assms templatesFor_nonempty [of c]] by simp
qed

lemma templates_shape: "list_all templateShape allTemplates"
  by code_simp

lemma template_shape: "q \<in> set (templatesFor c) \<Longrightarrow> templateShape q"
  using templates_shape templatesFor_sub [of q c] by (simp add: list_all_iff)

text \<open>
  C6, as the program has it.  Every question \<^verbatim>\<open>generateInterviewQuestion\<close> returns is not
  empty.  From the model tier it has between 10 and 300 characters and ends with \<^verbatim>\<open>?\<close>,
  unless it was cut: then it is the first 297 characters followed by three dots.  From the
  template tier it is one of the templates of the category (of \<^verbatim>\<open>OPENING\<close> for an unknown
  category); the templates end with \<^verbatim>\<open>?\<close>, except the first one of \<^verbatim>\<open>MEMORIES\<close>.
\<close>

theorem generateInterviewQuestion_shape:
  assumes "0 \<le> random" and "random < 1"
  shows "AIResponse.content
           (generateInterviewQuestion run previousResponses emotion questionCategory
              currentQuestionIndex random) \<noteq> []
    \<and> (case questionPrimary run emotion questionCategory of
          Inr r \<Rightarrow>
            generateInterviewQuestion run previousResponses emotion questionCategory
              currentQuestionIndex random = r
            \<and> 10 \<le> length (AIResponse.content r) \<and> length (AIResponse.content r) \<le> 300
            \<and> (endsWith (AIResponse.content r) ''?''
                 \<or> (length (AIResponse.content r) = 300
                      \<and> endsWith (AIResponse.content r) ''...''))
        | Inl err \<Rightarrow>
            AIResponse.content
              (generateInterviewQuestion run previousResponses emotion questionCategory
                 currentQuestionIndex random) \<in> set (templatesFor questionCategory)
            \<and> templateShape (AIResponse.content
                (generateInterviewQuestion run previousResponses emotion
                   questionCategory currentQuestionIndex random)))"
proof (cases "questionPrimary run emotion questionCategory")
  case (Inr r)
  then show ?thesis
    using questionPrimary_shape [OF Inr] by (auto simp: generateInterviewQuestion_def)
next
  case (Inl err)
  have "getFallbackQuestion questionCategory random \<in> set (templatesFor questionCategory)"
    using assms by (rule getFallbackQuestion_in_pool)
  then show ?thesis
    using Inl template_shape [of "getFallbackQuestion questionCategory random" questionCategory]
    by (auto simp: generateInterviewQuestion_def templateShape_def)
qed

theorem generateInterviewQuestion_shape_witness:
  "(0::real) \<le> 1 / 2 \<and> (1 / 2 :: real) < 1
   \<and> AIResponse.content
       (generateInterviewQuestion
          \<lparr>init_outcome = None, engine_present = True,
           completion = Inr (Some ''\"What made you smile today\"'')\<rparr>
          [] ''joyful'' ''memories'' 0 (1 / 2)) = ''What made you smile today?''
   \<and> AIResponse.content
       (generateInterviewQuestion
          \<lparr>init_outcome = Some ''AI initialization timed out'', engine_present = False,
           completion = Inl ''unreachable''\<rparr>
          [] ''joyful'' ''memories'' 0 (1 / 2))
       \<in> set (templatesFor ''memories'')"
proof -
  have h1: "(0::real) \<le> 1 / 2" and h2: "(1 / 2 :: real) < 1" by simp_all
  have p: "questionPrimary \<lparr>init_outcome = Some ''AI initialization timed out'',
      engine_present = False, completion = Inl ''unreachable''\<rparr> ''joyful'' ''memories''
      = Inl ''AI initialization timed out''"
    by (simp add: questionPrimary_def ensure_engine_def)
  have a: "AIResponse.content
       (generateInterviewQuestion
          \<lparr>init_outcome = None, engine_present = True,
           completion = Inr (Some ''\"What made you smile today\"'')\<rparr>
          [] ''joyful'' ''memories'' 0 (1 / 2)) = ''What made you smile today?''"
    by code_simp
  show ?thesis
    using generateInterviewQuestion_shape [OF h1 h2,
        of "\<lparr>init_outcome = Some ''AI initialization timed out'', engine_present = False,
           completion = Inl ''unreachable''\<rparr>" "[]" "''joyful''" "''memories''" 0]
      p a h1 h2
    by simp
qed

theorem generateInterviewQuestion_counterexample:
  "\<not> endsWith (AIResponse.content
       (generateInterviewQuestion
          \<lparr>init_outcome = None, engine_present = True,
           completion = Inr (Some (replicate 301 CHR ''a''))\<rparr>
          [] ''joyful'' ''memories'' 0 0)) ''?''
   \<and> \<not> endsWith (AIResponse.content
       (generateInterviewQuestion
          \<lparr>init_outcome = None, engine_present = True,
           completion = Inl ''completion failed''\<rparr>
          [] ''joyful'' ''memories'' 0 0)) ''?''"
proof -
  have c: "cleanQuestion (replicate 301 CHR ''a'') = Inr (replicate 297 CHR ''a'' @ ''...'')"
    by code_simp
  have t: "templatesFor ''memories'' = MEMORIES"
    by code_simp
  have e: "\<not> endsWith (replicate 297 CHR ''a'' @ ''...'') ''?''"
    by (simp add: endsWith_def)
  have r: "replicate 301 CHR ''a'' \<noteq> []" "trim (replicate 301 CHR ''a'') \<noteq> []"
    by code_simp+
  show ?thesis
    using c t e r
    by (simp add: generateInterviewQuestion_def questionPrimary_def ensure_engine_def
        getFallbackQuestion_def MEMORIES_def endsWith_def)
qed

section \<open>Properties of content generation\<close>








section \<open>Properties of the lifecycle manager\<close>

lemma notifyProgress_fields [simp]:
  "engine (notifyProgress e m) = engine m"
  "isInitialized (notifyProgress e m) = isInitialized m"
  "initPromise (notifyProgress e m) = initPromise m"
  "progressCallbacks (notifyProgress e m) = progressCallbacks m"
  "promises (notifyProgress e m) = promises m"
  "loads (notifyProgress e m) = loads m"
  by (simp_all add: notifyProgress_def)

lemma broadcasts_notifyProgress [simp]:
  "broadcasts (notifyProgress e m) = broadcasts m @ [e]"
  by (simp add: broadcasts_def notifyProgress_def)

lemma broadcasts_update [simp]:
  "broadcasts (m\<lparr>promises := ps\<rparr>) = broadcasts m"
  "broadcasts (m\<lparr>loads := n\<rparr>) = broadcasts m"
  "broadcasts (m\<lparr>initPromise := ip\<rparr>) = broadcasts m"
  "broadcasts (m\<lparr>engine := en\<rparr>) = broadcasts m"
  "broadcasts (m\<lparr>isInitialized := b\<rparr>) = broadcasts m"
  by (simp_all add: broadcasts_def)

lemma fold_reports:
  "engine (fold (\<lambda>f. notifyProgress (reportEvent f)) fs m) = engine m"
  "isInitialized (fold (\<lambda>f. notifyProgress (reportEvent f)) fs m) = isInitialized m"
  "initPromise (fold (\<lambda>f. notifyProgress (reportEvent f)) fs m) = initPromise m"
  "promises (fold (\<lambda>f. notifyProgress (reportEvent f)) fs m) = promises m"
  "loads (fold (\<lambda>f. notifyProgress (reportEvent f)) fs m) = loads m"
  "broadcasts (fold (\<lambda>f. notifyProgress (reportEvent f)) fs m) = broadcasts m @ map reportEvent fs"
  by (induction fs arbitrary: m) simp_all

lemma run_reports:
  "p < length (promises m) \<Longrightarrow>
   run_events (map (Report p) fs) m = fold (\<lambda>f. notifyProgress (reportEvent f)) fs m"
  unfolding run_events_def
  by (induction fs arbitrary: m) simp_all

lemma run_events_append: "run_events (xs @ ys) m = run_events ys (run_events xs m)"
  by (simp add: run_events_def)

lemma reportEvent_not_ready: "stage (reportEvent f) \<noteq> ready"
  by (simp add: reportEvent_def)


lemma initialize_fresh:
  assumes "\<not> isInitialized m" and "initPromise m = None"
  shows "initialize m =
     (Settles (length (promises m)),
      (notifyProgress
         \<lparr>progress = 0, progressText = ''Initializing AI...'', stage = downloading\<rparr> m)
        \<lparr>promises := promises m @ [Racing], loads := Suc (loads m),
         initPromise := Some (length (promises m))\<rparr>)"
  using assms by (simp add: initialize_def doInitialize_def Let_def)

lemma initialize_in_flight:
  "\<not> isInitialized m \<Longrightarrow> initPromise m = Some p \<Longrightarrow> initialize m = (Settles p, m)"
  by (simp add: initialize_def)

lemma initialize_ready: "isInitialized m \<Longrightarrow> initialize m = (Immediately, m)"
  by (simp add: initialize_def)

text \<open>
  C4.  \<^verbatim>\<open>initialize()\<close> returns at once on an initialized manager, and hands out the
  operation in flight when there is one.  On a manager with neither, two calls in a row start
  one load and return the same operation; with the reports of the runtime and the end of the
  load, the events broadcast are the first event, one event for each report and one
  \<^verbatim>\<open>ready\<close> event, in this order and once; the operation is fulfilled, the manager is ready, and
  a third call returns at once and changes nothing.
\<close>

theorem initialize_deduplicates:
  "(isInitialized m \<longrightarrow> initialize m = (Immediately, m))
   \<and> (\<not> isInitialized m \<longrightarrow> initPromise m = Some p \<longrightarrow> initialize m = (Settles p, m))
   \<and> (\<not> isInitialized m \<longrightarrow> initPromise m = None \<longrightarrow>
        (let op = length (promises m);
             m1 = snd (initialize m);
             m2 = snd (initialize m1);
             final = run_events
                       (map (Report op) fractions @ [LoadResolved op e, WarmupSettled op]) m2;
             emitted =
               [\<lparr>progress = 0, progressText = ''Initializing AI...'', stage = downloading\<rparr>]
               @ map reportEvent fractions
               @ [\<lparr>progress = 1, progressText = ''AI ready for conversations!'',
                   stage = ready\<rparr>]
         in fst (initialize m) = Settles op
            \<and> initialize m1 = (Settles op, m1)
            \<and> loads m1 = Suc (loads m)
            \<and> loads final = Suc (loads m)
            \<and> broadcasts final = broadcasts m @ emitted
            \<and> length (filter (\<lambda>x. stage x = ready) emitted) = 1
            \<and> promises final ! op = Fulfilled
            \<and> isReady final
            \<and> initialize final = (Immediately, final)))"
proof (intro conjI impI)
  assume "isInitialized m" then show "initialize m = (Immediately, m)"
    by (rule initialize_ready)
next
  assume "\<not> isInitialized m" "initPromise m = Some p"
  then show "initialize m = (Settles p, m)" by (rule initialize_in_flight)
next
  assume fresh: "\<not> isInitialized m" "initPromise m = None"
  define op where "op = length (promises m)"
  define m1 where "m1 = snd (initialize m)"
  define mr where "mr = run_events (map (Report op) fractions) m1"
  define ml where "ml = step (LoadResolved op e) mr"
  define final where "final = step (WarmupSettled op) ml"
  define firstE where
    "firstE = \<lparr>progress = 0, progressText = ''Initializing AI...'', stage = downloading\<rparr>"
  define readyE where
    "readyE = \<lparr>progress = 1, progressText = ''AI ready for conversations!'', stage = ready\<rparr>"
  have i1: "initialize m = (Settles op, m1)"
    unfolding m1_def op_def using initialize_fresh [OF fresh] by simp
  have m1: "promises m1 = promises m @ [Racing]" "engine m1 = engine m"
    "\<not> isInitialized m1" "initPromise m1 = Some op" "loads m1 = Suc (loads m)"
    "broadcasts m1 = broadcasts m @ [firstE]"
    unfolding m1_def op_def firstE_def using initialize_fresh [OF fresh] fresh by simp_all
  have i2: "initialize m1 = (Settles op, m1)"
    using m1 by (simp add: initialize_in_flight)
  have lt: "op < length (promises m1)" using m1 by (simp add: op_def)
  have mr: "promises mr = promises m @ [Racing]" "engine mr = engine m"
    "\<not> isInitialized mr" "initPromise mr = Some op" "loads mr = Suc (loads m)"
    "broadcasts mr = broadcasts m @ [firstE] @ map reportEvent fractions"
    unfolding mr_def run_reports [OF lt] using m1 by (simp_all add: fold_reports)
  have rc: "racing op mr" using mr by (simp add: racing_def op_def)
  have ml: "promises ml = (promises m @ [Racing])[op := WarmingUp]" "engine ml = Some e"
    "isInitialized ml" "loads ml = Suc (loads m)"
    "broadcasts ml = broadcasts m @ [firstE] @ map reportEvent fractions @ [readyE]"
    unfolding ml_def readyE_def using rc mr by simp_all
  have wu: "op < length (promises ml) \<and> promises ml ! op = WarmingUp"
    using ml by (simp add: op_def)
  have final: "promises final ! op = Fulfilled" "engine final = Some e"
    "isInitialized final" "loads final = Suc (loads m)"
    "broadcasts final = broadcasts m @ [firstE] @ map reportEvent fractions @ [readyE]"
    unfolding final_def using wu ml by (simp_all add: op_def)
  have run: "run_events (map (Report op) fractions @ [LoadResolved op e, WarmupSettled op])
      (snd (initialize m1)) = final"
    unfolding final_def ml_def mr_def using i2 by (simp add: run_events_def)
  have count: "length (filter (\<lambda>x. stage x = ready)
      ([firstE] @ map reportEvent fractions @ [readyE])) = 1"
    by (simp add: firstE_def readyE_def filter_map o_def reportEvent_not_ready)
  show "let op = length (promises m);
             m1 = snd (initialize m);
             m2 = snd (initialize m1);
             final = run_events
                       (map (Report op) fractions @ [LoadResolved op e, WarmupSettled op]) m2;
             emitted =
               [\<lparr>progress = 0, progressText = ''Initializing AI...'', stage = downloading\<rparr>]
               @ map reportEvent fractions
               @ [\<lparr>progress = 1, progressText = ''AI ready for conversations!'',
                   stage = ready\<rparr>]
         in fst (initialize m) = Settles op
            \<and> initialize m1 = (Settles op, m1)
            \<and> loads m1 = Suc (loads m)
            \<and> loads final = Suc (loads m)
            \<and> broadcasts final = broadcasts m @ emitted
            \<and> length (filter (\<lambda>x. stage x = ready) emitted) = 1
            \<and> promises final ! op = Fulfilled
            \<and> isReady final
            \<and> initialize final = (Immediately, final)"
    unfolding Let_def op_def [symmetric] m1_def [symmetric] run
      firstE_def [symmetric] readyE_def [symmetric]
    using i1 i2 m1 final count by (simp add: isReady_def initialize_ready)
qed


theorem initialize_deduplicates_witness:
  "\<not> isInitialized newManager \<and> initPromise newManager = None
   \<and> initialize (snd (initialize newManager)) = (Settles 0, snd (initialize newManager))
   \<and> map stage (broadcasts (run_events
          (map (Report 0) [1 / 10, 9 / 10] @ [LoadResolved 0 7, WarmupSettled 0])
          (snd (initialize (snd (initialize newManager))))))
       = [downloading, downloading, loading, ready]
   \<and> loads (run_events
          (map (Report 0) [1 / 10, 9 / 10] @ [LoadResolved 0 7, WarmupSettled 0])
          (snd (initialize (snd (initialize newManager))))) = 1"
proof -
  have h: "\<not> isInitialized newManager" "initPromise newManager = None"
    and n: "promises newManager = []" "broadcasts newManager = []" "loads newManager = 0"
    by (simp_all add: newManager_def broadcasts_def)
  note all = initialize_deduplicates [of newManager 0 "[1 / 10, 9 / 10]" 7,
      THEN conjunct2, THEN conjunct2, rule_format, OF h, unfolded Let_def n list.size]
  have a: "initialize (snd (initialize newManager)) = (Settles 0, snd (initialize newManager))"
    using all by blast
  have b: "broadcasts (run_events
          (map (Report 0) [1 / 10, 9 / 10] @ [LoadResolved 0 7, WarmupSettled 0])
          (snd (initialize (snd (initialize newManager)))))
        = [] @ [\<lparr>progress = 0, progressText = ''Initializing AI...'', stage = downloading\<rparr>]
           @ map reportEvent [1 / 10, 9 / 10]
           @ [\<lparr>progress = 1, progressText = ''AI ready for conversations!'',
               stage = ready\<rparr>]"
    using all by blast
  have c: "loads (run_events
          (map (Report 0) [1 / 10, 9 / 10] @ [LoadResolved 0 7, WarmupSettled 0])
          (snd (initialize (snd (initialize newManager))))) = Suc 0"
    using all by blast
  show ?thesis
    unfolding b c using h a by (simp add: reportEvent_def)
qed

text \<open>
  C3, as the program has it.  When the timer wins the race of an operation in flight, the
  operation is rejected with the error \<^verbatim>\<open>AI initialization timed out\<close>, an event of stage
  \<^verbatim>\<open>error\<close> is broadcast, and the manager stays uninitialized with the engine it had.  The
  field \<^verbatim>\<open>initPromise\<close> keeps the rejected operation: the next \<^verbatim>\<open>initialize()\<close> returns
  that operation, leaves the manager as it is and starts no load.
\<close>

theorem timeout_keeps_operation:
  assumes "initPromise m = Some p" and "racing p m" and "\<not> isInitialized m"
  shows "promises (step (TimeoutFired p) m) ! p = Rejected ''AI initialization timed out''
    \<and> \<not> isInitialized (step (TimeoutFired p) m)
    \<and> engine (step (TimeoutFired p) m) = engine m
    \<and> stage (last (broadcasts (step (TimeoutFired p) m))) = error
    \<and> initPromise (step (TimeoutFired p) m) = Some p
    \<and> initialize (step (TimeoutFired p) m) = (Settles p, step (TimeoutFired p) m)
    \<and> loads (snd (initialize (step (TimeoutFired p) m))) = loads m"
  using assms by (simp add: raceLost_def racing_def initialize_def)

theorem timeout_keeps_operation_witness:
  "initPromise (snd (initialize newManager)) = Some 0
   \<and> racing 0 (snd (initialize newManager))
   \<and> \<not> isInitialized (snd (initialize newManager))
   \<and> initialize (step (TimeoutFired 0) (snd (initialize newManager)))
       = (Settles 0, step (TimeoutFired 0) (snd (initialize newManager)))
   \<and> loads (snd (initialize (step (TimeoutFired 0) (snd (initialize newManager))))) = 1"
proof -
  have h: "initPromise (snd (initialize newManager)) = Some 0"
    "racing 0 (snd (initialize newManager))"
    "\<not> isInitialized (snd (initialize newManager))"
    "loads (snd (initialize newManager)) = 1"
    by (simp_all add: newManager_def initialize_def doInitialize_def Let_def racing_def)
  note t = timeout_keeps_operation [OF h(1) h(2) h(3)]
  have a: "initialize (step (TimeoutFired 0) (snd (initialize newManager)))
       = (Settles 0, step (TimeoutFired 0) (snd (initialize newManager)))"
    using t by blast
  have b: "loads (snd (initialize (step (TimeoutFired 0) (snd (initialize newManager)))))
       = loads (snd (initialize newManager))"
    using t by blast
  show ?thesis
  proof (intro conjI)
    show "loads (snd (initialize (step (TimeoutFired 0) (snd (initialize newManager))))) = 1"
      by (simp only: b h(4))
  qed (rule h a)+
qed

text \<open>
  The claim fails on a new manager: after one call and the timer, the field still holds the
  operation, the operation is rejected, and a second call returns it; one load was started.
\<close>

theorem timeout_counterexample:
  "initPromise (step (TimeoutFired 0) (snd (initialize newManager))) = Some 0
   \<and> promises (step (TimeoutFired 0) (snd (initialize newManager))) ! 0
       = Rejected ''AI initialization timed out''
   \<and> fst (initialize (step (TimeoutFired 0) (snd (initialize newManager)))) = Settles 0
   \<and> loads (snd (initialize (step (TimeoutFired 0) (snd (initialize newManager))))) = 1"
  by (simp add: newManager_def initialize_def doInitialize_def Let_def notifyProgress_def
      racing_def raceLost_def)

section \<open>Properties of voice cloning and speech\<close>

lemma wordChar_not_space: "isWordChar c \<Longrightarrow> \<not> isWhiteSpace c"
  by (auto simp: isWordChar_def isWhiteSpace_def Let_def)

lemma alphaNum_wordChar: "isAlphaNum c \<Longrightarrow> isWordChar c"
  by (auto simp: isWordChar_def isAlphaNum_def Let_def)

lemma trim_no_space:
  assumes "list_all (\<lambda>c. \<not> isWhiteSpace c) s"
  shows "trim s = s"
proof (cases s rule: rev_cases)
  case Nil
  then show ?thesis by (simp add: trim_def)
next
  case (snoc ys y)
  have a: "dropWhile isWhiteSpace s = s"
    using assms by (cases s) auto
  have "\<not> isWhiteSpace y" using assms snoc by simp
  then have "dropWhile isWhiteSpace (rev s) = rev s" using snoc by simp
  then show ?thesis using a by (simp add: trim_def)
qed

lemma collapse_no_space:
  "list_all (\<lambda>c. \<not> isWhiteSpace c) s \<Longrightarrow> collapseWhiteSpace b s = s"
  by (induction s arbitrary: b) auto

lemma sanitizeName_word:
  assumes "list_all isWordChar s" and "length s \<le> 100"
  shows "sanitizeName s = s"
proof -
  have ns: "list_all (\<lambda>c. \<not> isWhiteSpace c) s"
    using assms(1) wordChar_not_space by (auto simp: list_all_iff)
  have f: "filter (\<lambda>c. isWordChar c \<or> isWhiteSpace c \<or> c = CHR 0x27 \<or> c = CHR ''-'') s = s"
    using assms(1) by (auto simp: list_all_iff intro: filter_True)
  show ?thesis
    using assms(2) by (simp add: sanitizeName_def trim_no_space [OF ns] f collapse_no_space [OF ns])
qed

lemma showNat_digit: "n < 10 \<Longrightarrow> showNat n = [''0123456789'' ! n]"
  by (subst showNat.simps) simp

lemma showNat_more:
  "\<not> n < 10 \<Longrightarrow> showNat n = showNat (n div 10) @ [''0123456789'' ! (n mod 10)]"
  by (subst showNat.simps) simp

lemma digit_wordChar: "(d::nat) < 10 \<Longrightarrow> isWordChar (''0123456789'' ! d)"
proof -
  assume "d < 10"
  then have "d \<in> {0, 1, 2, 3, 4, 5, 6, 7, 8, 9}" by auto
  then show ?thesis by (auto simp: isWordChar_def)
qed

lemma showNat_word: "list_all isWordChar (showNat n)"
proof (induction n rule: showNat.induct)
  case (1 n)
  show ?case
  proof (cases "n < 10")
    case True
    then show ?thesis by (simp add: showNat_digit digit_wordChar)
  next
    case False
    have "n mod 10 < 10" by simp
    then have "isWordChar (''0123456789'' ! (n mod 10))" by (rule digit_wordChar)
    then show ?thesis using False 1 by (simp add: showNat_more)
  qed
qed

lemma localModelId_word:
  "list_all isAlphaNum r \<Longrightarrow> list_all isWordChar (localModelId n r)"
proof -
  assume "list_all isAlphaNum r"
  then have r: "list_all isWordChar r"
    using alphaNum_wordChar by (auto simp: list_all_iff)
  have p: "list_all isWordChar ''local_''" "list_all isWordChar ''_''"
    by (simp_all add: isWordChar_def)
  show ?thesis
    unfolding localModelId_def using r p showNat_word [of n] by simp
qed

lemma validateSamples_None:
  "validateSamples cfg i blobs = None
   \<longleftrightarrow> list_all (\<lambda>b. 1000 \<le> b \<and> b \<le> maxFileSize cfg) blobs"
  by (induction blobs arbitrary: i) auto


lemma find_snoc_fresh:
  "find P xs = None \<Longrightarrow> P y \<Longrightarrow> find P (xs @ [y]) = Some y"
  by (induction xs) (auto split: if_splits)

lemma length_sampleFileNames: "length (sampleFileNames blobs) = length blobs"
  by (simp add: sampleFileNames_def)

text \<open>
  C7.  Take a name that \<^verbatim>\<open>cloneVoice\<close> and the creating hook of the store accept, and at least
  three samples (and as many as the configuration requires) of an accepted size.  If the
  remote clone call fails, whatever the failure, \<^verbatim>\<open>cloneVoice\<close> does not throw: it returns
  the id generated locally, the store gains one record with that id, of local origin, of
  quality \<^verbatim>\<open>medium\<close> and active, and looking the id up finds this record.  The write to the
  database is taken to succeed, and the generated id to be new and at most 100 characters long.
\<close>

theorem cloneVoice_local_fallback:
  assumes name_given: "voiceName \<noteq> []" "trim voiceName \<noteq> []"
    and name_valid: "2 \<le> length (sanitizeName (trim voiceName))"
      "length (sanitizeName (trim voiceName)) \<le> 50"
      "voiceNamePattern (sanitizeName (trim voiceName))"
    and samples_valid: "3 \<le> length blobs" "requiredSamples (config w) \<le> length blobs"
      "list_all (\<lambda>b. 1000 \<le> b \<and> b \<le> maxFileSize (config w) \<and> b < 50 * 1024 * 1024) blobs"
    and remote_fails:
      "fst (ElevenLabs_cloneVoice (apiKey w) (cloneAnswer w) voiceName (sampleFileNames blobs))
         = Inl err"
    and store: "writable w"
      "voiceModels_first (localModelId (now w) (randomDigits w)) table = None"
    and generated: "list_all isAlphaNum (randomDigits w)"
      "length (localModelId (now w) (randomDigits w)) \<le> 100"
  shows "fst (cloneVoice w table voiceName blobs) = Inr (localModelId (now w) (randomDigits w))
    \<and> fst (snd (cloneVoice w table voiceName blobs))
        = table @ [\<lparr>modelId = localModelId (now w) (randomDigits w),
                     name = sanitizeName (trim voiceName),
                     samples = sampleFileNames blobs, sampleBlobs = Some blobs,
                     createdAt = now w, isActive = True, isElevenLabsModel = False,
                     quality = medium\<rparr>]
    \<and> voiceModels_first (localModelId (now w) (randomDigits w))
          (fst (snd (cloneVoice w table voiceName blobs)))
        = Some \<lparr>modelId = localModelId (now w) (randomDigits w),
                 name = sanitizeName (trim voiceName),
                 samples = sampleFileNames blobs, sampleBlobs = Some blobs,
                 createdAt = now w, isActive = True, isElevenLabsModel = False,
                 quality = medium\<rparr>"
proof -
  define newId where "newId = localModelId (now w) (randomDigits w)"
  define stored where
    "stored = \<lparr>modelId = newId, name = sanitizeName (trim voiceName),
                samples = sampleFileNames blobs, sampleBlobs = Some blobs,
                createdAt = now w, isActive = True, isElevenLabsModel = False,
                quality = medium\<rparr>"
  have id_same: "sanitizeName newId = newId"
    unfolding newId_def using generated by (simp add: sanitizeName_word localModelId_word)
  have id_len: "1 \<le> length newId"
    by (simp add: newId_def localModelId_def)
  have sizes: "validateSamples (config w) 0 blobs = None"
    using samples_valid(3) by (simp add: validateSamples_None list_all_iff)
  have blobs_ok: "list_all BlobSchema blobs"
    using samples_valid(3) by (auto simp: list_all_iff BlobSchema_def)
  have san: "sanitizeVoiceModel
      \<lparr>modelId = newId, name = trim voiceName, samples = sampleFileNames blobs,
       sampleBlobs = Some blobs, createdAt = now w, isActive = True,
       isElevenLabsModel = False, quality = medium\<rparr> = stored"
    by (simp add: sanitizeVoiceModel_def stored_def id_same)
  have valid: "validateVoiceModel stored"
    using name_valid samples_valid(1) blobs_ok id_len
    by (simp add: validateVoiceModel_def stored_def length_sampleFileNames)
  have add: "voiceModels_add (writable w)
      \<lparr>modelId = newId, name = trim voiceName, samples = sampleFileNames blobs,
       sampleBlobs = Some blobs, createdAt = now w, isActive = True,
       isElevenLabsModel = False, quality = medium\<rparr> table = Inr (table @ [stored])"
    using valid store(1) by (simp add: voiceModels_add_def san)
  have blobs_given: "length blobs \<noteq> 0" "\<not> length blobs < requiredSamples (config w)"
    using samples_valid(1,2) by auto
  have result: "cloneVoice w table voiceName blobs
      = (Inr newId, table @ [stored],
         snd (ElevenLabs_cloneVoice (apiKey w) (cloneAnswer w) voiceName
                (sampleFileNames blobs)))"
    using name_given blobs_given sizes remote_fails add
    by (simp add: cloneVoice_def Let_def newId_def [symmetric])
  have found: "voiceModels_first newId (table @ [stored]) = Some stored"
    unfolding voiceModels_first_def
    using store(2) by (intro find_snoc_fresh) (simp_all add: voiceModels_first_def newId_def stored_def)
  show ?thesis
    unfolding newId_def [symmetric] using result found by (simp add: stored_def)
qed

theorem cloneVoice_local_fallback_witness:
  "fst (cloneVoice offlineWorld [] ''Mom'' [2000, 3000, 4000]) = Inr ''local_1700000000000_k3j9x0a1b''
   \<and> map_option (\<lambda>v. (isElevenLabsModel v, quality v, isActive v))
        (voiceModels_first ''local_1700000000000_k3j9x0a1b''
           (fst (snd (cloneVoice offlineWorld [] ''Mom'' [2000, 3000, 4000]))))
       = Some (False, medium, True)"
proof -
  have id: "localModelId (now offlineWorld) (randomDigits offlineWorld)
      = ''local_1700000000000_k3j9x0a1b''"
    by (simp add: localModelId_def offlineWorld_def showNat_digit showNat_more)
  have n: "''Mom'' \<noteq> []" "trim ''Mom'' \<noteq> []"
    "2 \<le> length (sanitizeName (trim ''Mom''))"
    "length (sanitizeName (trim ''Mom'')) \<le> 50"
    "voiceNamePattern (sanitizeName (trim ''Mom''))"
    by code_simp+
  have b: "3 \<le> length [2000, 3000, 4000 :: nat]"
    "requiredSamples (config offlineWorld) \<le> length [2000, 3000, 4000 :: nat]"
    "list_all (\<lambda>b. 1000 \<le> b \<and> b \<le> maxFileSize (config offlineWorld) \<and> b < 50 * 1024 * 1024)
       [2000, 3000, 4000]"
    by (simp_all add: offlineWorld_def voiceConfig_def)
  have r: "fst (ElevenLabs_cloneVoice (apiKey offlineWorld) (cloneAnswer offlineWorld) ''Mom''
         (sampleFileNames [2000, 3000, 4000])) = Inl ''ElevenLabs API key not configured''"
    by (simp add: ElevenLabs_cloneVoice_def offlineWorld_def)
  have d: "writable offlineWorld"
    "voiceModels_first (localModelId (now offlineWorld) (randomDigits offlineWorld)) [] = None"
    by (simp_all add: offlineWorld_def voiceModels_first_def)
  have g: "list_all isAlphaNum (randomDigits offlineWorld)"
    "length (localModelId (now offlineWorld) (randomDigits offlineWorld)) \<le> 100"
    unfolding id by (simp_all add: offlineWorld_def isAlphaNum_def)
  note t = cloneVoice_local_fallback [OF n b r d g, unfolded id]
  have a: "fst (cloneVoice offlineWorld [] ''Mom'' [2000, 3000, 4000])
      = Inr ''local_1700000000000_k3j9x0a1b''"
    using t by blast
  have b: "voiceModels_first ''local_1700000000000_k3j9x0a1b''
           (fst (snd (cloneVoice offlineWorld [] ''Mom'' [2000, 3000, 4000])))
      = Some \<lparr>modelId = ''local_1700000000000_k3j9x0a1b'',
                 name = sanitizeName (trim ''Mom''),
                 samples = sampleFileNames [2000, 3000, 4000],
                 sampleBlobs = Some [2000, 3000, 4000],
                 createdAt = now offlineWorld, isActive = True, isElevenLabsModel = False,
                 quality = medium\<rparr>"
    using t by blast
  show ?thesis unfolding a b by simp
qed





section \<open>Properties of the encrypted store\<close>

lemma charCode_roundtrip: "fromCharCode (charCodeAt c) = c"
  by (simp add: fromCharCode_def charCodeAt_def unat_of_nat)

lemma byte_roundtrip: "charCodeAt (fromCharCode b) = b"
proof -
  have "unat b < 2 ^ LENGTH(8)" by (rule unsigned_less)
  then have "unat b < 256" by simp
  then show ?thesis by (simp add: fromCharCode_def charCodeAt_def)
qed

lemma buffer_roundtrip:
  assumes "base64_contract P"
  shows "base64ToArrayBuffer P (arrayBufferToBase64 P buffer) = Inr buffer"
proof -
  have "atob P (btoa P (map fromCharCode buffer)) = Inr (map fromCharCode buffer)"
    using assms by (simp add: base64_contract_def)
  moreover have "map charCodeAt (map fromCharCode buffer) = buffer"
    by (simp add: byte_roundtrip o_def)
  ultimately show ?thesis
    by (simp add: base64ToArrayBuffer_def arrayBufferToBase64_def)
qed

lemma buffer_text_nonempty:
  assumes "base64_contract P" and "buffer \<noteq> []"
  shows "arrayBufferToBase64 P buffer \<noteq> []"
  using assms by (simp add: base64_contract_def arrayBufferToBase64_def)

lemma retrieve_stored_key:
  assumes "base64_contract P" and "length key = 32"
    and "ls ''capsule_key'' = Some (arrayBufferToBase64 P key)"
  shows "retrieveKey P ls = Inr key"
proof -
  have "key \<noteq> []" using assms(2) by auto
  then have "arrayBufferToBase64 P key \<noteq> []"
    using assms(1) by (rule buffer_text_nonempty [rotated])
  then show ?thesis
    using assms by (simp add: retrieveKey_def buffer_roundtrip importKey_def)
qed

lemma encrypt_result:
  assumes "encrypt P rnd plain None ls = (Inr blob, ls')"
  shows "ls' = ls(''capsule_key'' \<mapsto> arrayBufferToBase64 P (randomKey rnd))
    \<and> (\<exists>cipher. subtleEncrypt P (randomKey rnd) (randomIv rnd) (encodeText P plain) = Inr cipher
          \<and> blob = \<lparr>encryptedData = arrayBufferToBase64 P cipher,
                     salt = arrayBufferToBase64 P (randomSalt rnd),
                     iv = arrayBufferToBase64 P (randomIv rnd)\<rparr>)"
  using assms
  by (auto simp: encrypt_def storeKey_def Let_def split: sum.splits if_splits)

lemma encrypt_succeeds:
  assumes "setItemAllowed P ''capsule_key'' (arrayBufferToBase64 P (randomKey rnd))"
    and "subtleEncrypt P (randomKey rnd) (randomIv rnd) (encodeText P plain) = Inr cipher"
  shows "encrypt P rnd plain None ls =
     (Inr \<lparr>encryptedData = arrayBufferToBase64 P cipher,
           salt = arrayBufferToBase64 P (randomSalt rnd),
           iv = arrayBufferToBase64 P (randomIv rnd)\<rparr>,
      ls(''capsule_key'' \<mapsto> arrayBufferToBase64 P (randomKey rnd)))"
  using assms by (simp add: encrypt_def storeKey_def Let_def)

lemma decrypt_with_stored_key:
  assumes "base64_contract P" and "length key = 32"
    and "ls ''capsule_key'' = Some (arrayBufferToBase64 P key)"
  shows "decrypt P (arrayBufferToBase64 P cipher) (arrayBufferToBase64 P saltBytes)
           (arrayBufferToBase64 P vec) None ls
         = (case subtleDecrypt P key vec cipher of
              Inl message \<Rightarrow> Inl message
            | Inr decrypted \<Rightarrow> Inr (decodeText P decrypted))"
  using assms
  by (simp add: decrypt_def buffer_roundtrip retrieve_stored_key)


text \<open>
  C10.  Each \<^verbatim>\<open>encrypt\<close> without a password writes the key it has drawn into the one slot
  \<^verbatim>\<open>capsule_key\<close>.  So after \<^verbatim>\<open>encrypt(x)\<close> and then \<^verbatim>\<open>encrypt(y)\<close>, with two
  different keys of 256 bits, the slot holds the second key; on a platform whose decryption
  rejects another key, \<^verbatim>\<open>decrypt\<close> of the blob of \<open>x\<close> throws, and
  \<^verbatim>\<open>getCapsuleContent\<close> of a capsule that stores this blob returns the text
  \<^verbatim>\<open>[CONTENT ENCRYPTED - UNABLE TO DECRYPT]\<close>.
\<close>

theorem second_encrypt_locks_first:
  assumes "base64_contract P" and "cipher_authentic P"
    and "length (randomKey r1) = 32" and "length (randomKey r2) = 32"
    and "randomKey r2 \<noteq> randomKey r1"
    and "encrypt P r1 x None ls = (Inr blobX, ls1)"
    and "encrypt P r2 y None ls1 = (Inr blobY, ls2)"
    and "isEncrypted capsule"
    and "encryptedContent capsule = Some (jsonStringify P blobX)"
    and "trim (jsonStringify P blobX) \<noteq> []"
    and "jsonParse P (jsonStringify P blobX) = Blob blobX"
  shows "ls1 ''capsule_key'' = Some (arrayBufferToBase64 P (randomKey r1))
    \<and> ls2 ''capsule_key'' = Some (arrayBufferToBase64 P (randomKey r2))
    \<and> isl (decrypt P (encryptedData blobX) (salt blobX) (iv blobX) None ls2)
    \<and> getCapsuleContent P capsule ls2 = ''[CONTENT ENCRYPTED - UNABLE TO DECRYPT]''"
proof -
  from encrypt_result [OF assms(6)] obtain cipher where
    ls1: "ls1 = ls(''capsule_key'' \<mapsto> arrayBufferToBase64 P (randomKey r1))"
    and enc: "subtleEncrypt P (randomKey r1) (randomIv r1) (encodeText P x) = Inr cipher"
    and blob: "blobX = \<lparr>encryptedData = arrayBufferToBase64 P cipher,
                     salt = arrayBufferToBase64 P (randomSalt r1),
                     iv = arrayBufferToBase64 P (randomIv r1)\<rparr>"
    by blast
  from encrypt_result [OF assms(7)] have
    ls2: "ls2 = ls1(''capsule_key'' \<mapsto> arrayBufferToBase64 P (randomKey r2))"
    by blast
  have slot: "ls2 ''capsule_key'' = Some (arrayBufferToBase64 P (randomKey r2))"
    using ls2 by simp
  have rejected: "isl (subtleDecrypt P (randomKey r2) (randomIv r1) cipher)"
    using assms(2) enc assms(3,4,5) unfolding cipher_authentic_def by blast
  have dec: "isl (decrypt P (encryptedData blobX) (salt blobX) (iv blobX) None ls2)"
    using decrypt_with_stored_key [of P "randomKey r2" ls2 cipher "randomSalt r1"
        "randomIv r1"] rejected assms(1,4) slot
    by (auto simp: blob isl_def)
  have stored: "jsonStringify P blobX \<noteq> []"
    using assms(10) by (auto simp: trim_def)
  have "getCapsuleContent P capsule ls2 = ''[CONTENT ENCRYPTED - UNABLE TO DECRYPT]''"
    using assms(8,9,10,11) stored dec
    by (auto simp: getCapsuleContent_def isl_def split: sum.splits)
  then show ?thesis using ls1 slot dec by simp
qed


lemma smallPlatform_contracts:
  "base64_contract smallPlatform" "cipher_contract smallPlatform"
  "cipher_authentic smallPlatform" "decodeText smallPlatform (encodeText smallPlatform x) = x"
proof -
  show "base64_contract smallPlatform"
    by (simp add: base64_contract_def smallPlatform_def)
  show "cipher_contract smallPlatform"
    by (auto simp: cipher_contract_def smallPlatform_def boxEncrypt_def boxDecrypt_def)
  show "cipher_authentic smallPlatform"
    by (auto simp: cipher_authentic_def smallPlatform_def boxEncrypt_def boxDecrypt_def)
  show "decodeText smallPlatform (encodeText smallPlatform x) = x"
    by (simp add: smallPlatform_def charCode_roundtrip o_def)
qed







text \<open>
  The updating hook is not part of the statement above.  It encrypts a copy of the record, so
  the record written has the sanitized new text as its content and the encrypted content it
  had before.
\<close>

lemma updating_writes_plaintext:
  assumes "newContent modifications = Some text"
  shows "content (fst (updating P rnd modifications obj ls)) = sanitizeText text
    \<and> encryptedContent (fst (updating P rnd modifications obj ls)) = encryptedContent obj"
  using assms by (simp add: updating_def Let_def sanitizeChanges_def applyChanges_def)




theorem second_encrypt_locks_first_witness:
  "randomKey entropyB \<noteq> randomKey entropyA
   \<and> (case fst (encrypt smallPlatform entropyA ''first'' None Map.empty) of
         Inr blobX \<Rightarrow>
           getCapsuleContent smallPlatform
             (letter\<lparr>encryptedContent := Some (jsonStringify smallPlatform blobX)\<rparr>)
             (snd (encrypt smallPlatform entropyA ''first'' None Map.empty)) = ''first''
           \<and> getCapsuleContent smallPlatform
               (letter\<lparr>encryptedContent := Some (jsonStringify smallPlatform blobX)\<rparr>)
               (snd (encrypt smallPlatform entropyB ''second'' None
                  (snd (encrypt smallPlatform entropyA ''first'' None Map.empty))))
             = ''[CONTENT ENCRYPTED - UNABLE TO DECRYPT]''
       | Inl message \<Rightarrow> False)"
proof -
  define blobX where "blobX =
     \<lparr>encryptedData = arrayBufferToBase64 smallPlatform
        (randomKey entropyA @ randomIv entropyA @ encodeText smallPlatform ''first''),
      salt = arrayBufferToBase64 smallPlatform (randomSalt entropyA),
      iv = arrayBufferToBase64 smallPlatform (randomIv entropyA)\<rparr>"
  define ls1 where "ls1 =
     Map.empty(''capsule_key'' \<mapsto> arrayBufferToBase64 smallPlatform (randomKey entropyA))"
  define blobY where "blobY =
     \<lparr>encryptedData = arrayBufferToBase64 smallPlatform
        (randomKey entropyB @ randomIv entropyB @ encodeText smallPlatform ''second''),
      salt = arrayBufferToBase64 smallPlatform (randomSalt entropyB),
      iv = arrayBufferToBase64 smallPlatform (randomIv entropyB)\<rparr>"
  define ls2 where "ls2 =
     ls1(''capsule_key'' \<mapsto> arrayBufferToBase64 smallPlatform (randomKey entropyB))"
  define capsule where
    "capsule = letter\<lparr>encryptedContent := Some (jsonStringify smallPlatform blobX)\<rparr>"
  have e1: "encrypt smallPlatform entropyA ''first'' None Map.empty = (Inr blobX, ls1)"
    unfolding blobX_def ls1_def
    by (rule encrypt_succeeds) (simp_all add: smallPlatform_def boxEncrypt_def)
  have e2: "encrypt smallPlatform entropyB ''second'' None ls1 = (Inr blobY, ls2)"
    unfolding blobY_def ls2_def
    by (rule encrypt_succeeds) (simp_all add: smallPlatform_def boxEncrypt_def)
  have k: "length (randomKey entropyA) = 32" "length (randomKey entropyB) = 32"
    "randomKey entropyB \<noteq> randomKey entropyA"
    by (simp_all add: entropyA_def entropyB_def)
  have c: "isEncrypted capsule"
    "encryptedContent capsule = Some (jsonStringify smallPlatform blobX)"
    by (simp_all add: capsule_def letter_def)
  have j: "trim (jsonStringify smallPlatform blobX) \<noteq> []"
    "jsonParse smallPlatform (jsonStringify smallPlatform blobX) = Blob blobX"
    unfolding blobX_def by code_simp+
  note t = second_encrypt_locks_first [OF smallPlatform_contracts(1) smallPlatform_contracts(3)
      k e1 e2 c j]
  have before: "getCapsuleContent smallPlatform capsule ls1 = ''first''"
    unfolding capsule_def blobX_def ls1_def by code_simp
  show ?thesis
    using k(3) t before by (simp add: capsule_def e1 e2)
qed

end
